theory Spec2Isabelle
  imports Complex_Main "HOL-Library.Word" "HOL-Library.Signed_Division"
begin

section \<open>Numeric domains\<close>

text \<open>
  \<^verbatim>\<open>Tcl_WideInt\<close> is a signed 64-bit integer.  It is modelled as a 64-bit word:
  \<open>+\<close>, \<open>-\<close> and \<open>*\<close> wrap around (two's complement), \<open>sint\<close> reads the signed
  value, and every comparison of the source is a comparison of \<open>sint\<close> values.
\<close>

type_synonym Tcl_WideInt = "64 word"

text \<open>
  Outcomes the C source leaves to undefined behaviour or to \<^verbatim>\<open>Tcl_Panic\<close> are
  branches of the model: a \<open>fault\<close> on the left of a sum.
\<close>

datatype fault =
    Panic
  | NullDereference
  | UninitialisedRead
  | DivisionByZero
  | DivisionOverflow
  | AssertionFailure
  | WildWrite

text \<open>
  C's \<^verbatim>\<open>/\<close> on \<^verbatim>\<open>Tcl_WideInt\<close> truncates towards zero (\<open>sdiv\<close> on \<open>int\<close>):
  \<open>wide_quot\<close> is the quotient, in 64 bits.  The division has no result in two
  cases, both undefined behaviour in C and a trap (\<^verbatim>\<open>SIGFPE\<close>) on the usual
  hardware: a zero divisor, and the least value \<open>-2\<^sup>6\<^sup>3\<close> divided by \<open>-1\<close>, whose
  quotient \<open>2\<^sup>6\<^sup>3\<close> is not a \<^verbatim>\<open>Tcl_WideInt\<close>.  \<open>wide_div\<close> is the operator with
  these two outcomes.
\<close>

definition wide_quot :: "Tcl_WideInt \<Rightarrow> Tcl_WideInt \<Rightarrow> Tcl_WideInt" where
  "wide_quot a b = word_of_int (sint a sdiv sint b)"

definition wide_div :: "Tcl_WideInt \<Rightarrow> Tcl_WideInt \<Rightarrow> fault + Tcl_WideInt" where
  "wide_div a b =
     (if b = 0 then Inl DivisionByZero
      else if sint a = - (2 ^ 63) \<and> sint b = - 1 then Inl DivisionOverflow
      else Inr (wide_quot a b))"

text \<open>
  The arithmetic of C's \<^verbatim>\<open>double\<close> is a parameter of the model: a record of the
  operations the source applies to doubles.  \<open>of_wide\<close> is the conversion
  \<^verbatim>\<open>(double) w\<close>, \<open>to_wide\<close> the conversion \<^verbatim>\<open>(Tcl_WideInt) d\<close>, \<open>d_is_zero d\<close>
  the test \<^verbatim>\<open>d == 0\<close>, \<open>d_one\<close> the literal \<^verbatim>\<open>1.0\<close>.  Every theorem that mentions
  \<open>ops\<close> holds for each interpretation of these operations.
\<close>

record 'd double_ops =
  of_wide :: "Tcl_WideInt \<Rightarrow> 'd"
  to_wide :: "'d \<Rightarrow> Tcl_WideInt"
  d_add :: "'d \<Rightarrow> 'd \<Rightarrow> 'd"
  d_sub :: "'d \<Rightarrow> 'd \<Rightarrow> 'd"
  d_mul :: "'d \<Rightarrow> 'd \<Rightarrow> 'd"
  d_div :: "'d \<Rightarrow> 'd \<Rightarrow> 'd"
  d_neg :: "'d \<Rightarrow> 'd"
  d_less :: "'d \<Rightarrow> 'd \<Rightarrow> bool"
  d_is_zero :: "'d \<Rightarrow> bool"
  d_one :: "'d"

section \<open>Data model\<close>

text \<open>The completion code of a Tcl procedure, with the value stored through its
  result pointer on \<^verbatim>\<open>TCL_OK\<close>.\<close>

datatype 'a status = TCL_ERROR | TCL_OK 'a

text \<open>A numeric \<^verbatim>\<open>Tcl_Obj\<close> of the host: what \<^verbatim>\<open>Tcl_NewWideIntObj\<close> and
  \<^verbatim>\<open>Tcl_NewDoubleObj\<close> build.\<close>

datatype 'd number = WideIntObj Tcl_WideInt | DoubleObj 'd

text \<open>
  The structs \<^verbatim>\<open>ArithSeries\<close> and \<^verbatim>\<open>ArithSeriesDbl\<close> hold the same fields; only
  the type of \<open>start\<close>, \<open>end\<close> and \<open>step\<close> differs.  \<open>elements\<close> is the cache:
  \<open>None\<close> is the \<^verbatim>\<open>NULL\<close> pointer, \<open>Some xs\<close> an array holding \<open>xs\<close>.
\<close>

record ('n, 'd) ArithSeriesFields =
  len :: Tcl_WideInt
  elements :: "'d number list option"
  start :: 'n
  endv :: 'n
  step :: 'n

datatype 'd ArithSeriesRep =
    ArithSeries "(Tcl_WideInt, 'd) ArithSeriesFields"
  | ArithSeriesDbl "('d, 'd) ArithSeriesFields"

fun isDouble :: "'d ArithSeriesRep \<Rightarrow> bool" where
  "isDouble (ArithSeries r) = False"
| "isDouble (ArithSeriesDbl r) = True"

fun rep_len :: "'d ArithSeriesRep \<Rightarrow> Tcl_WideInt" where
  "rep_len (ArithSeries r) = len r"
| "rep_len (ArithSeriesDbl r) = len r"

fun rep_elements :: "'d ArithSeriesRep \<Rightarrow> 'd number list option" where
  "rep_elements (ArithSeries r) = elements r"
| "rep_elements (ArithSeriesDbl r) = elements r"

text \<open>
  A \<^verbatim>\<open>Tcl_Obj\<close> as this file sees it: its reference count, its string representation
  (\<open>None\<close> when invalidated) and its concrete representation (\<open>None\<close> for an object
  that is not an arithmetic series, such as the empty object of \<^verbatim>\<open>TclNewObj\<close>).
\<close>

record 'd Tcl_Obj =
  refCount :: int
  bytes :: "string option"
  concreteRep :: "'d ArithSeriesRep option"

text \<open>\<^verbatim>\<open>TclNewObj\<close> / \<^verbatim>\<open>Tcl_NewObj\<close>: the canonical empty value, reference count 0,
  empty string representation, no type.\<close>

definition TclNewObj :: "'d Tcl_Obj" where
  "TclNewObj = \<lparr>refCount = 0, bytes = Some [], concreteRep = None\<rparr>"

text \<open>\<^verbatim>\<open>Tcl_NewAbstractListObj\<close> followed by \<^verbatim>\<open>Tcl_AbstractListSetConcreteRep\<close> and
  \<^verbatim>\<open>Tcl_InvalidateStringRep\<close>, as both constructors call them.\<close>

definition Tcl_NewAbstractListObj :: "'d ArithSeriesRep \<Rightarrow> 'd Tcl_Obj" where
  "Tcl_NewAbstractListObj rep = \<lparr>refCount = 0, bytes = None, concreteRep = Some rep\<rparr>"

text \<open>\<^verbatim>\<open>Tcl_IsShared\<close> is the macro \<^verbatim>\<open>refCount > 1\<close>.\<close>

definition Tcl_IsShared :: "'d Tcl_Obj \<Rightarrow> bool" where
  "Tcl_IsShared obj = (refCount obj > 1)"

text \<open>The two build parameters \<^verbatim>\<open>TclNewArithSeriesObj\<close> reads.\<close>

record config =
  TCL_MAJOR_VERSION :: nat
  ListSizeT_MAX :: Tcl_WideInt

section \<open>The bounds calculator\<close>

text \<open>After the early return for a zero step, the test \<^verbatim>\<open>step ? \<dots> : 0\<close> of the
  source always takes its first arm, the division.\<close>

definition ArithSeriesLen ::
  "Tcl_WideInt \<Rightarrow> Tcl_WideInt \<Rightarrow> Tcl_WideInt \<Rightarrow> fault + Tcl_WideInt" where
  "ArithSeriesLen start' end' step' =
     (if step' = 0 then Inr 0
      else case wide_div (end' - start') step' of
             Inl f \<Rightarrow> Inl f
           | Inr q \<Rightarrow> (let len' = 1 + q in Inr (if sint len' < 0 then - 1 else len')))"

section \<open>Duplication\<close>

text \<open>\<^verbatim>\<open>*copyArithSeries = *srcArithSeries\<close>: every field of the source struct,
  the \<open>elements\<close> pointer among them, is copied; the copy becomes the concrete
  representation of \<open>copyPtr\<close>.\<close>

definition DupArithSeriesRep :: "'d Tcl_Obj \<Rightarrow> 'd Tcl_Obj \<Rightarrow> fault + 'd Tcl_Obj" where
  "DupArithSeriesRep srcPtr copyPtr =
     (case concreteRep srcPtr of
        None \<Rightarrow> Inl NullDereference
      | Some srcArithSeries \<Rightarrow> Inr (copyPtr\<lparr>concreteRep := Some srcArithSeries\<rparr>))"

section \<open>Constructors\<close>

definition TclNewArithSeriesInt ::
  "Tcl_WideInt \<Rightarrow> Tcl_WideInt \<Rightarrow> Tcl_WideInt \<Rightarrow> Tcl_WideInt \<Rightarrow> fault + 'd Tcl_Obj" where
  "TclNewArithSeriesInt start' end' step' len' =
     (case (if 0 \<le> sint len' then Inr len' else ArithSeriesLen start' end' step') of
        Inl f \<Rightarrow> Inl f
      | Inr length' \<Rightarrow>
          Inr (if sint length' \<le> 0 then TclNewObj
               else Tcl_NewAbstractListObj
                      (ArithSeries \<lparr>len = length', elements = None,
                                    start = start', endv = end', step = step'\<rparr>)))"

text \<open>\<^verbatim>\<open>ArithSeriesLen\<close> takes \<^verbatim>\<open>Tcl_WideInt\<close> arguments: the doubles are converted
  at the call.\<close>

definition TclNewArithSeriesDbl ::
  "'d double_ops \<Rightarrow> 'd \<Rightarrow> 'd \<Rightarrow> 'd \<Rightarrow> Tcl_WideInt \<Rightarrow> fault + 'd Tcl_Obj" where
  "TclNewArithSeriesDbl ops start' end' step' len' =
     (case (if 0 \<le> sint len' then Inr len'
            else ArithSeriesLen (to_wide ops start') (to_wide ops end') (to_wide ops step')) of
        Inl f \<Rightarrow> Inl f
      | Inr length' \<Rightarrow>
          Inr (if sint length' \<le> 0 then TclNewObj
               else Tcl_NewAbstractListObj
                      (ArithSeriesDbl \<lparr>len = length', elements = None,
                                       start = start', endv = end', step = step'\<rparr>)))"

section \<open>Host accessors\<close>

text \<open>
  Modelled from the spec: the host's generic numeric-value abstraction, which is not
  part of this file (\<^verbatim>\<open>Tcl_GetWideIntFromObj\<close>, \<^verbatim>\<open>Tcl_GetDoubleFromObj\<close>).  An
  integer object yields its value; a double object is not an integer, so the
  integer accessor fails on it; the double accessor converts an integer.
\<close>

definition Tcl_GetWideIntFromObj :: "'d number \<Rightarrow> Tcl_WideInt status" where
  "Tcl_GetWideIntFromObj objPtr =
     (case objPtr of WideIntObj w \<Rightarrow> TCL_OK w | DoubleObj d \<Rightarrow> TCL_ERROR)"

definition Tcl_GetDoubleFromObj :: "'d double_ops \<Rightarrow> 'd number \<Rightarrow> 'd" where
  "Tcl_GetDoubleFromObj ops objPtr =
     (case objPtr of DoubleObj d \<Rightarrow> d | WideIntObj w \<Rightarrow> of_wide ops w)"

text \<open>
  \<^verbatim>\<open>assignNumber\<close> stores into \<^verbatim>\<open>*dblNumberPtr\<close> when \<^verbatim>\<open>useDoubles\<close> is set and
  into \<^verbatim>\<open>*intNumberPtr\<close> otherwise; the two definitions are its two arms.  The
  argument is a numeric object (\<^verbatim>\<open>TclGetNumberFromObj\<close> succeeds on it).
\<close>

definition assignNumber_dbl :: "'d double_ops \<Rightarrow> 'd number \<Rightarrow> 'd" where
  "assignNumber_dbl ops numberObj =
     (case numberObj of DoubleObj d \<Rightarrow> d | WideIntObj i \<Rightarrow> of_wide ops i)"

definition assignNumber_int :: "'d double_ops \<Rightarrow> 'd number \<Rightarrow> Tcl_WideInt" where
  "assignNumber_int ops numberObj =
     (case numberObj of WideIntObj i \<Rightarrow> i | DoubleObj d \<Rightarrow> to_wide ops d)"

section \<open>Construction from optional arguments\<close>

text \<open>
  What \<^verbatim>\<open>TclNewArithSeriesObj\<close> has decided when it reaches its length check (or
  has returned before): the empty object for a zero step, the error of an
  unreadable length, or the four values it passes to one of the constructors.
\<close>

datatype 'd series_args =
    ZeroStep
  | BadLength
  | IntArgs Tcl_WideInt Tcl_WideInt Tcl_WideInt Tcl_WideInt
  | DblArgs 'd 'd 'd Tcl_WideInt

definition read_lenObj :: "'d number option \<Rightarrow> Tcl_WideInt option status" where
  "read_lenObj lenObj =
     (case lenObj of
        None \<Rightarrow> TCL_OK None
      | Some l \<Rightarrow> (case Tcl_GetWideIntFromObj l of
                    TCL_ERROR \<Rightarrow> TCL_ERROR
                  | TCL_OK v \<Rightarrow> TCL_OK (Some v)))"

text \<open>
  The body of \<^verbatim>\<open>TclNewArithSeriesObj\<close> with \<^verbatim>\<open>useDoubles == 0\<close>, up to the length
  check.  A local variable that no statement has assigned is \<open>None\<close>; reading it is
  the fault \<open>UninitialisedRead\<close>.  The zero test of the source is made on
  \<^verbatim>\<open>dstep = step\<close>, the step converted to double.
\<close>

definition ArithSeriesArgsInt ::
  "'d double_ops \<Rightarrow> 'd number option \<Rightarrow> 'd number option \<Rightarrow> 'd number option \<Rightarrow>
   'd number option \<Rightarrow> fault + 'd series_args" where
  "ArithSeriesArgsInt ops startObj endObj stepObj lenObj =
     (let start' = (case startObj of Some n \<Rightarrow> assignNumber_int ops n | None \<Rightarrow> 0);
          step0 = map_option (assignNumber_int ops) stepObj
      in if (case step0 of Some s \<Rightarrow> d_is_zero ops (of_wide ops s) | None \<Rightarrow> False)
         then Inr ZeroStep
         else
           (case read_lenObj lenObj of
              TCL_ERROR \<Rightarrow> Inr BadLength
            | TCL_OK len0 \<Rightarrow>
               (case map_option (assignNumber_int ops) endObj of
                  Some end' \<Rightarrow>
                    if startObj \<noteq> None then
                      (let step1 = (case step0 of
                                      None \<Rightarrow> (if sint start' < sint end' then 1 else - 1)
                                    | Some s \<Rightarrow> s)
                       in if d_is_zero ops (of_wide ops step1) then Inl AssertionFailure
                          else (case len0 of
                                  Some l \<Rightarrow> Inr (IntArgs start' end' step1 l)
                                | None \<Rightarrow>
                                    (case wide_div (end' - start' + step1) step1 of
                                       Inl f \<Rightarrow> Inl f
                                     | Inr l \<Rightarrow> Inr (IntArgs start' end' step1 l))))
                    else
                      (case (step0, len0) of
                         (Some s, Some l) \<Rightarrow> Inr (IntArgs start' end' s l)
                       | _ \<Rightarrow> Inl UninitialisedRead)
                | None \<Rightarrow>
                    (case (step0, len0) of
                       (Some s, Some l) \<Rightarrow> Inr (IntArgs start' (start' + s * (l - 1)) s l)
                     | _ \<Rightarrow> Inl UninitialisedRead))))"

text \<open>The same body with \<^verbatim>\<open>useDoubles != 0\<close>.\<close>

definition ArithSeriesArgsDbl ::
  "'d double_ops \<Rightarrow> 'd number option \<Rightarrow> 'd number option \<Rightarrow> 'd number option \<Rightarrow>
   'd number option \<Rightarrow> fault + 'd series_args" where
  "ArithSeriesArgsDbl ops startObj endObj stepObj lenObj =
     (let dstart = (case startObj of Some n \<Rightarrow> assignNumber_dbl ops n | None \<Rightarrow> of_wide ops 0);
          dstep0 = map_option (assignNumber_dbl ops) stepObj
      in if (case dstep0 of Some s \<Rightarrow> d_is_zero ops s | None \<Rightarrow> False)
         then Inr ZeroStep
         else
           (case read_lenObj lenObj of
              TCL_ERROR \<Rightarrow> Inr BadLength
            | TCL_OK len0 \<Rightarrow>
               (case map_option (assignNumber_dbl ops) endObj of
                  Some dend \<Rightarrow>
                    if startObj \<noteq> None then
                      (let dstep1 = (case dstep0 of
                                       None \<Rightarrow> (if d_less ops dstart dend then d_one ops
                                                else d_neg ops (d_one ops))
                                     | Some s \<Rightarrow> s)
                       in if d_is_zero ops dstep1 then Inl AssertionFailure
                          else (case len0 of
                                  Some l \<Rightarrow> Inr (DblArgs dstart dend dstep1 l)
                                | None \<Rightarrow>
                                    Inr (DblArgs dstart dend dstep1
                                          (to_wide ops
                                             (d_div ops
                                                (d_add ops (d_sub ops dend dstart) dstep1)
                                                dstep1)))))
                    else
                      (case (dstep0, len0) of
                         (Some s, Some l) \<Rightarrow> Inr (DblArgs dstart dend s l)
                       | _ \<Rightarrow> Inl UninitialisedRead)
                | None \<Rightarrow>
                    (case (dstep0, len0) of
                       (Some s, Some l) \<Rightarrow>
                         Inr (DblArgs dstart
                                (d_add ops dstart (d_mul ops s (of_wide ops (l - 1)))) s l)
                     | _ \<Rightarrow> Inl UninitialisedRead))))"

definition ArithSeriesArgs ::
  "'d double_ops \<Rightarrow> bool \<Rightarrow> 'd number option \<Rightarrow> 'd number option \<Rightarrow> 'd number option \<Rightarrow>
   'd number option \<Rightarrow> fault + 'd series_args" where
  "ArithSeriesArgs ops useDoubles startObj endObj stepObj lenObj =
     (if useDoubles then ArithSeriesArgsDbl ops startObj endObj stepObj lenObj
      else ArithSeriesArgsInt ops startObj endObj stepObj lenObj)"

text \<open>\<^verbatim>\<open>TclNewArithSeriesObj\<close>: the completion code, with the object stored in
  \<^verbatim>\<open>*arithSeriesObj\<close> on \<^verbatim>\<open>TCL_OK\<close>.\<close>

definition TclNewArithSeriesObj ::
  "'d double_ops \<Rightarrow> config \<Rightarrow> bool \<Rightarrow> 'd number option \<Rightarrow> 'd number option \<Rightarrow>
   'd number option \<Rightarrow> 'd number option \<Rightarrow> fault + 'd Tcl_Obj status" where
  "TclNewArithSeriesObj ops cfg useDoubles startObj endObj stepObj lenObj =
     (case ArithSeriesArgs ops useDoubles startObj endObj stepObj lenObj of
        Inl f \<Rightarrow> Inl f
      | Inr ZeroStep \<Rightarrow> Inr (TCL_OK TclNewObj)
      | Inr BadLength \<Rightarrow> Inr TCL_ERROR
      | Inr (IntArgs start' end' step' len') \<Rightarrow>
          if TCL_MAJOR_VERSION cfg < 9 \<and> sint (ListSizeT_MAX cfg) < sint len'
          then Inr TCL_ERROR
          else (case TclNewArithSeriesInt start' end' step' len' of
                  Inl f \<Rightarrow> Inl f
                | Inr obj \<Rightarrow> Inr (TCL_OK obj))
      | Inr (DblArgs dstart dend dstep len') \<Rightarrow>
          if TCL_MAJOR_VERSION cfg < 9 \<and> sint (ListSizeT_MAX cfg) < sint len'
          then Inr TCL_ERROR
          else (case TclNewArithSeriesDbl ops dstart dend dstep len' of
                  Inl f \<Rightarrow> Inl f
                | Inr obj \<Rightarrow> Inr (TCL_OK obj)))"

section \<open>Length, index and step\<close>

definition TclArithSeriesObjLength :: "'d Tcl_Obj \<Rightarrow> fault + Tcl_WideInt" where
  "TclArithSeriesObjLength arithSeriesObj =
     (case concreteRep arithSeriesObj of
        None \<Rightarrow> Inl NullDereference
      | Some rep \<Rightarrow> Inr (rep_len rep))"

text \<open>
  The macro \<^verbatim>\<open>ArithSeriesIndexM\<close> is one conditional expression
  \<^verbatim>\<open>isDouble ? (double expression) : (Tcl_WideInt expression)\<close>.  In C the type of a
  conditional expression with arithmetic operands is the common type of the two
  (the usual arithmetic conversions), here \<^verbatim>\<open>double\<close>: the integer sum
  \<^verbatim>\<open>start + index * step\<close> is converted to \<^verbatim>\<open>double\<close> by the macro, and
  \<^verbatim>\<open>Tcl_NewWideIntObj\<close> converts it back to \<^verbatim>\<open>Tcl_WideInt\<close>.
\<close>

definition ArithSeriesIndexM :: "'d double_ops \<Rightarrow> 'd ArithSeriesRep \<Rightarrow> Tcl_WideInt \<Rightarrow> 'd" where
  "ArithSeriesIndexM ops rep index =
     (case rep of
        ArithSeriesDbl r \<Rightarrow> d_add ops (start r) (d_mul ops (of_wide ops index) (step r))
      | ArithSeries r \<Rightarrow> of_wide ops (start r + index * step r))"

definition TclArithSeriesObjIndex ::
  "'d double_ops \<Rightarrow> 'd Tcl_Obj \<Rightarrow> Tcl_WideInt \<Rightarrow> fault + 'd number status" where
  "TclArithSeriesObjIndex ops arithSeriesPtr index =
     (case concreteRep arithSeriesPtr of
        None \<Rightarrow> Inl Panic
      | Some rep \<Rightarrow>
          if sint index < 0 \<or> sint (rep_len rep) \<le> sint index then Inr TCL_ERROR
          else if isDouble rep
            then Inr (TCL_OK (DoubleObj (ArithSeriesIndexM ops rep index)))
            else Inr (TCL_OK (WideIntObj (to_wide ops (ArithSeriesIndexM ops rep index)))))"

text \<open>\<^verbatim>\<open>TclArithSeriesObjStep\<close> always completes with \<^verbatim>\<open>TCL_OK\<close>; the model
  returns the object it stores.\<close>

definition TclArithSeriesObjStep :: "'d Tcl_Obj \<Rightarrow> fault + 'd number" where
  "TclArithSeriesObjStep arithSeriesPtr =
     (case concreteRep arithSeriesPtr of
        None \<Rightarrow> Inl Panic
      | Some (ArithSeriesDbl r) \<Rightarrow> Inr (DoubleObj (step r))
      | Some (ArithSeries r) \<Rightarrow> Inr (WideIntObj (step r)))"

section \<open>Slice and reverse\<close>

text \<open>
  The pointer a procedure returns: its own argument (the update was made in place),
  a newly allocated object, or \<^verbatim>\<open>NULL\<close>.  \<open>TclArithSeriesObjRange\<close> and
  \<open>TclArithSeriesObjReverse\<close> return it together with the argument object as
  the call leaves it.
\<close>

datatype 'd returned = SameObj | NewObj "'d Tcl_Obj" | NullPtr

text \<open>
  \<^verbatim>\<open>TclArithSeriesObjRange\<close>.  The results of the two \<^verbatim>\<open>TclArithSeriesObjIndex\<close>
  calls are not tested: after a failed call \<^verbatim>\<open>startObj\<close> or \<^verbatim>\<open>endObj\<close> is an
  unassigned pointer, which the next statement dereferences.  In the in-place
  branch of a series of doubles the source casts \<^verbatim>\<open>arithSeriesPtr\<close>, the
  \<^verbatim>\<open>Tcl_Obj\<close> itself, to \<^verbatim>\<open>ArithSeriesDbl *\<close> and stores the five fields through
  it: the fault \<open>WildWrite\<close>.  In the integer branch the new length is a
  division, with its two faults.
\<close>

definition TclArithSeriesObjRange ::
  "'d double_ops \<Rightarrow> config \<Rightarrow> 'd Tcl_Obj \<Rightarrow> Tcl_WideInt \<Rightarrow> Tcl_WideInt \<Rightarrow>
   fault + ('d returned \<times> 'd Tcl_Obj)" where
  "TclArithSeriesObjRange ops cfg arithSeriesPtr fromIdx toIdx =
     (let fromIdx' = (if sint fromIdx < 0 then 0 else fromIdx)
      in if sint toIdx < sint fromIdx' then Inr (NewObj TclNewObj, arithSeriesPtr)
         else
          (case TclArithSeriesObjIndex ops arithSeriesPtr fromIdx' of
             Inl f \<Rightarrow> Inl f
           | Inr TCL_ERROR \<Rightarrow> Inl UninitialisedRead
           | Inr (TCL_OK startObj) \<Rightarrow>
          (case TclArithSeriesObjIndex ops arithSeriesPtr toIdx of
             Inl f \<Rightarrow> Inl f
           | Inr TCL_ERROR \<Rightarrow> Inl UninitialisedRead
           | Inr (TCL_OK endObj) \<Rightarrow>
          (case TclArithSeriesObjStep arithSeriesPtr of
             Inl f \<Rightarrow> Inl f
           | Inr stepObj \<Rightarrow>
          (case concreteRep arithSeriesPtr of
             None \<Rightarrow> Inl NullDereference
           | Some rep \<Rightarrow>
              if Tcl_IsShared arithSeriesPtr \<or> refCount arithSeriesPtr > 1 then
                (case TclNewArithSeriesObj ops cfg (isDouble rep)
                        (Some startObj) (Some endObj) (Some stepObj) None of
                   Inl f \<Rightarrow> Inl f
                 | Inr TCL_ERROR \<Rightarrow> Inr (NullPtr, arithSeriesPtr)
                 | Inr (TCL_OK newSlicePtr) \<Rightarrow> Inr (NewObj newSlicePtr, arithSeriesPtr))
              else
                (case rep of
                   ArithSeriesDbl r \<Rightarrow> Inl WildWrite
                 | ArithSeries r \<Rightarrow>
                    (case (Tcl_GetWideIntFromObj startObj, Tcl_GetWideIntFromObj endObj,
                           Tcl_GetWideIntFromObj stepObj) of
                       (TCL_OK start', TCL_OK end', TCL_OK step') \<Rightarrow>
                         (case wide_div (end' - start' + step') step' of
                            Inl f \<Rightarrow> Inl f
                          | Inr len' \<Rightarrow>
                              Inr (SameObj,
                                arithSeriesPtr
                                  \<lparr>bytes := None,
                                   concreteRep := Some (ArithSeries
                                     (r\<lparr>start := start', endv := end', step := step',
                                        len := len', elements := None\<rparr>))\<rparr>))
                     | _ \<Rightarrow> Inl UninitialisedRead)))))))"

text \<open>
  \<^verbatim>\<open>TclArithSeriesObjReverse\<close>.  \<^verbatim>\<open>TclSetIntObj\<close> and \<^verbatim>\<open>TclSetDoubleObj\<close> store
  the negated step in \<^verbatim>\<open>stepObj\<close>.  The in-place branch keeps \<open>len\<close> and releases
  the cache.
\<close>

definition TclArithSeriesObjReverse ::
  "'d double_ops \<Rightarrow> config \<Rightarrow> 'd Tcl_Obj \<Rightarrow> fault + ('d returned \<times> 'd Tcl_Obj)" where
  "TclArithSeriesObjReverse ops cfg arithSeriesPtr =
     (case concreteRep arithSeriesPtr of
        None \<Rightarrow> Inl NullDereference
      | Some rep \<Rightarrow>
     (let len' = rep_len rep in
     (case TclArithSeriesObjIndex ops arithSeriesPtr (len' - 1) of
        Inl f \<Rightarrow> Inl f
      | Inr TCL_ERROR \<Rightarrow> Inl UninitialisedRead
      | Inr (TCL_OK startObj) \<Rightarrow>
     (case TclArithSeriesObjIndex ops arithSeriesPtr 0 of
        Inl f \<Rightarrow> Inl f
      | Inr TCL_ERROR \<Rightarrow> Inl UninitialisedRead
      | Inr (TCL_OK endObj) \<Rightarrow>
     (case TclArithSeriesObjStep arithSeriesPtr of
        Inl f \<Rightarrow> Inl f
      | Inr stepObj \<Rightarrow>
     (case rep of
        ArithSeriesDbl r \<Rightarrow>
          (let dstart = Tcl_GetDoubleFromObj ops startObj;
               dend = Tcl_GetDoubleFromObj ops endObj;
               dstep = d_neg ops (Tcl_GetDoubleFromObj ops stepObj)
           in if Tcl_IsShared arithSeriesPtr \<or> refCount arithSeriesPtr > 1 then
                (case TclNewArithSeriesObj ops cfg True (Some startObj) (Some endObj)
                        (Some (DoubleObj dstep)) (Some (WideIntObj len')) of
                   Inl f \<Rightarrow> Inl f
                 | Inr TCL_ERROR \<Rightarrow> Inr (NullPtr, arithSeriesPtr)
                 | Inr (TCL_OK resultObj) \<Rightarrow> Inr (NewObj resultObj, arithSeriesPtr))
              else Inr (SameObj,
                     arithSeriesPtr
                       \<lparr>bytes := None,
                        concreteRep := Some (ArithSeriesDbl
                          (r\<lparr>start := dstart, endv := dend, step := dstep,
                             elements := None\<rparr>))\<rparr>))
      | ArithSeries r \<Rightarrow>
          (case (Tcl_GetWideIntFromObj startObj, Tcl_GetWideIntFromObj endObj,
                 Tcl_GetWideIntFromObj stepObj) of
             (TCL_OK start', TCL_OK end', TCL_OK step0) \<Rightarrow>
               (let step' = - step0
                in if Tcl_IsShared arithSeriesPtr \<or> refCount arithSeriesPtr > 1 then
                     (case TclNewArithSeriesObj ops cfg False (Some startObj) (Some endObj)
                             (Some (WideIntObj step')) (Some (WideIntObj len')) of
                        Inl f \<Rightarrow> Inl f
                      | Inr TCL_ERROR \<Rightarrow> Inr (NullPtr, arithSeriesPtr)
                      | Inr (TCL_OK resultObj) \<Rightarrow> Inr (NewObj resultObj, arithSeriesPtr))
                   else Inr (SameObj,
                          arithSeriesPtr
                            \<lparr>bytes := None,
                             concreteRep := Some (ArithSeries
                               (r\<lparr>start := start', endv := end', step := step',
                                  elements := None\<rparr>))\<rparr>))
           | _ \<Rightarrow> Inl UninitialisedRead)))))))"

text \<open>The object a returned pointer points to, given the argument object as the
  call left it.\<close>

fun returned_obj :: "'d returned \<times> 'd Tcl_Obj \<Rightarrow> 'd Tcl_Obj option" where
  "returned_obj (SameObj, arg) = Some arg"
| "returned_obj (NewObj obj, arg) = Some obj"
| "returned_obj (NullPtr, arg) = None"

section \<open>Materialisation\<close>

text \<open>
  \<^verbatim>\<open>TclArithSeriesGetElements\<close> with non-null \<^verbatim>\<open>objcPtr\<close> and \<^verbatim>\<open>objvPtr\<close>; the
  allocation succeeds.  \<^verbatim>\<open>objc\<close> is an \<^verbatim>\<open>int\<close>: the length is narrowed to 32 bits.
  The result is the completion code with \<^verbatim>\<open>(*objcPtr, *objvPtr)\<close>, and the object
  with its cache.
\<close>

fun fill_elements ::
  "'d double_ops \<Rightarrow> 'd Tcl_Obj \<Rightarrow> nat list \<Rightarrow> 'd number list \<Rightarrow> 'd number list option" where
  "fill_elements ops obj [] objv = Some objv"
| "fill_elements ops obj (i # is) objv =
     (case TclArithSeriesObjIndex ops obj (word_of_nat i) of
        Inr (TCL_OK e) \<Rightarrow> fill_elements ops obj is (objv @ [e])
      | _ \<Rightarrow> None)"

definition set_elements :: "'d ArithSeriesRep \<Rightarrow> 'd number list option \<Rightarrow> 'd ArithSeriesRep" where
  "set_elements rep objv =
     (case rep of
        ArithSeries r \<Rightarrow> ArithSeries (r\<lparr>elements := objv\<rparr>)
      | ArithSeriesDbl r \<Rightarrow> ArithSeriesDbl (r\<lparr>elements := objv\<rparr>))"

definition TclArithSeriesGetElements ::
  "'d double_ops \<Rightarrow> 'd Tcl_Obj \<Rightarrow>
   ((32 word \<times> 'd number list option) status \<times> 'd Tcl_Obj)" where
  "TclArithSeriesGetElements ops arithSeriesObjPtr =
     (case concreteRep arithSeriesObjPtr of
        None \<Rightarrow> (TCL_ERROR, arithSeriesObjPtr)
      | Some rep \<Rightarrow>
          (let objc = (ucast (rep_len rep) :: 32 word)
           in if objc \<noteq> 0 \<and> rep_elements rep \<noteq> None
              then (TCL_OK (objc, rep_elements rep), arithSeriesObjPtr)
              else if 0 < sint objc then
                (case fill_elements ops arithSeriesObjPtr [0..<nat (sint objc)] [] of
                   None \<Rightarrow> (TCL_ERROR, arithSeriesObjPtr)
                 | Some objv \<Rightarrow>
                     (TCL_OK (objc, Some objv),
                      arithSeriesObjPtr\<lparr>concreteRep := Some (set_elements rep (Some objv))\<rparr>))
              else (TCL_OK (objc, None),
                    arithSeriesObjPtr\<lparr>concreteRep := Some (set_elements rep None)\<rparr>)))"

section \<open>The string representation\<close>

text \<open>
  \<^verbatim>\<open>UpdateStringOfArithSeries\<close>.  \<open>GetString\<close> is the host's
  \<^verbatim>\<open>Tcl_GetStringFromObj\<close> on a numeric object, a parameter.  \<^verbatim>\<open>llen\<close> and \<^verbatim>\<open>i\<close>
  are \<^verbatim>\<open>int\<close>s: the length is narrowed to 32 bits.  Pass 1 adds up the sizes,
  pass 2 writes each element and a space behind it; the last byte written becomes
  the terminator, so the string is the buffer without its last byte.
\<close>

definition pass1 ::
  "'d double_ops \<Rightarrow> ('d number \<Rightarrow> string) \<Rightarrow> 'd Tcl_Obj \<Rightarrow> nat \<Rightarrow> nat" where
  "pass1 ops GetString obj llen =
     fold (\<lambda>i length'.
             case TclArithSeriesObjIndex ops obj (word_of_nat i) of
               Inr (TCL_OK eleObj) \<Rightarrow> length' + (length (GetString eleObj) + 1)
             | _ \<Rightarrow> length')
          [0..<llen] 0"

definition pass2 ::
  "'d double_ops \<Rightarrow> ('d number \<Rightarrow> string) \<Rightarrow> 'd Tcl_Obj \<Rightarrow> nat \<Rightarrow> string" where
  "pass2 ops GetString obj llen =
     fold (\<lambda>i p.
             case TclArithSeriesObjIndex ops obj (word_of_nat i) of
               Inr (TCL_OK eleObj) \<Rightarrow> p @ GetString eleObj @ [CHR '' '']
             | _ \<Rightarrow> p)
          [0..<llen] []"

definition UpdateStringOfArithSeries ::
  "'d double_ops \<Rightarrow> ('d number \<Rightarrow> string) \<Rightarrow> 'd Tcl_Obj \<Rightarrow> fault + 'd Tcl_Obj" where
  "UpdateStringOfArithSeries ops GetString arithSeriesObjPtr =
     (case TclArithSeriesObjLength arithSeriesObjPtr of
        Inl f \<Rightarrow> Inl f
      | Inr len' \<Rightarrow>
          (let llen = (ucast len' :: 32 word)
           in if sint llen \<le> 0 then Inr (arithSeriesObjPtr\<lparr>bytes := Some []\<rparr>)
              else
                (let length' = pass1 ops GetString arithSeriesObjPtr (nat (sint llen));
                     buf = pass2 ops GetString arithSeriesObjPtr (nat (sint llen))
                 in Inr (arithSeriesObjPtr\<lparr>bytes := Some (take (length' - 1) buf)\<rparr>))))"

section \<open>Observations\<close>

text \<open>
  Modelled from the spec: the length the host's generic list abstraction reports.
  The canonical empty container has length 0; a progression has its \<open>len\<close>.
\<close>

definition list_length :: "'d Tcl_Obj \<Rightarrow> int" where
  "list_length obj = (case concreteRep obj of None \<Rightarrow> 0 | Some rep \<Rightarrow> sint (rep_len rep))"

text \<open>The element sequence of a container: the result of \<open>TclArithSeriesObjIndex\<close>
  at each index below its length.\<close>

definition element_seq :: "'d double_ops \<Rightarrow> 'd Tcl_Obj \<Rightarrow> (fault + 'd number status) list" where
  "element_seq ops obj =
     map (\<lambda>i. TclArithSeriesObjIndex ops obj (word_of_nat i)) [0..<nat (list_length obj)]"

section \<open>An interpretation of the double operations\<close>

text \<open>
  IEEE 754 binary64 arithmetic on finite values, for evaluating the model at
  concrete inputs.  A finite double is the rational number it denotes.  Every
  operation computes the exact result and rounds it to 53 significant bits, to
  nearest, ties to even; the exponent range is not bounded (no overflow to infinity,
  no subnormal numbers), and there is no NaN and no negative zero.
\<close>

text \<open>The number of binary digits of a positive integer.\<close>

function bitlen :: "int \<Rightarrow> nat" where
  "bitlen k = (if k \<le> 0 then 0 else Suc (bitlen (k div 2)))"
  by pat_completeness auto
termination
  by (relation "measure nat") auto

declare bitlen.simps [simp del]

text \<open>\<open>ilog2 x\<close> is \<open>\<lfloor>log\<^sub>2 x\<rfloor>\<close> for \<open>x > 0\<close>.\<close>

definition ilog2 :: "rat \<Rightarrow> int" where
  "ilog2 x = (if 1 \<le> x then int (bitlen \<lfloor>x\<rfloor>) - 1
              else - int (bitlen (\<lceil>1 / x\<rceil> - 1)))"

definition pow2 :: "int \<Rightarrow> rat" where
  "pow2 e = (if 0 \<le> e then 2 ^ nat e else 1 / 2 ^ nat (- e))"

definition round_half_even :: "rat \<Rightarrow> int" where
  "round_half_even x =
     (let f = \<lfloor>x\<rfloor>; r = x - of_int f
      in if r < 1 / 2 then f
         else if 1 / 2 < r then f + 1
         else if even f then f else f + 1)"

definition round53 :: "rat \<Rightarrow> rat" where
  "round53 x =
     (if x = 0 then 0
      else let q = pow2 (ilog2 \<bar>x\<bar> - 52)
           in of_int (round_half_even (x / q)) * q)"

text \<open>\<^verbatim>\<open>(Tcl_WideInt) d\<close> discards the fraction.\<close>

definition trunc_to_int :: "rat \<Rightarrow> int" where
  "trunc_to_int x = (if 0 \<le> x then \<lfloor>x\<rfloor> else \<lceil>x\<rceil>)"

definition binary64 :: "rat double_ops" where
  "binary64 =
     \<lparr>of_wide = (\<lambda>w. round53 (of_int (sint w))),
      to_wide = (\<lambda>d. word_of_int (trunc_to_int d)),
      d_add = (\<lambda>x y. round53 (x + y)),
      d_sub = (\<lambda>x y. round53 (x - y)),
      d_mul = (\<lambda>x y. round53 (x * y)),
      d_div = (\<lambda>x y. round53 (x / y)),
      d_neg = (\<lambda>x. - x),
      d_less = (\<lambda>x y. x < y),
      d_is_zero = (\<lambda>x. x = 0),
      d_one = 1\<rparr>"

text \<open>The binary64 values of the decimal literals \<^verbatim>\<open>0.1\<close> and \<^verbatim>\<open>0.2\<close>.\<close>

definition dbl_0_1 :: rat where
  "dbl_0_1 = 3602879701896397 / 36028797018963968"

definition dbl_0_2 :: rat where
  "dbl_0_2 = 3602879701896397 / 18014398509481984"

text \<open>
  Modelled from the spec: the host's number-to-text primitive on an integer, its
  minimal decimal form (\<^verbatim>\<open>Tcl_GetStringFromObj\<close> of an integer object).
\<close>

fun nat_text :: "nat \<Rightarrow> string" where
  "nat_text n =
     (if n < 10 then [''0123456789'' ! n]
      else nat_text (n div 10) @ [''0123456789'' ! (n mod 10)])"

definition wide_text :: "Tcl_WideInt \<Rightarrow> string" where
  "wide_text w = (if sint w < 0 then CHR ''-'' # nat_text (nat (- sint w))
                  else nat_text (nat (sint w)))"

section \<open>Notions of the specification\<close>

text \<open>An integer value survives the conversion to \<^verbatim>\<open>double\<close> and back when the two
  conversions return it unchanged (with binary64, every integer of magnitude up to
  \<open>2\<^sup>5\<^sup>3\<close> does).\<close>

definition survives :: "'d double_ops \<Rightarrow> Tcl_WideInt \<Rightarrow> bool" where
  "survives ops v = (to_wide ops (of_wide ops v) = v)"

text \<open>The text form in the spec's words: the elements' texts in order, separated by
  single spaces, with no trailing space; the empty text for no element.\<close>

fun spec_text_form :: "string list \<Rightarrow> string" where
  "spec_text_form [] = []"
| "spec_text_form [x] = x"
| "spec_text_form (x # y # ys) = x @ [CHR '' ''] @ spec_text_form (y # ys)"

text \<open>Modelled from the spec: the host's text of a numeric object, the decimal text
  above for an integer and a parameter \<open>dtext\<close> for a double.\<close>

definition number_text :: "('d \<Rightarrow> string) \<Rightarrow> 'd number \<Rightarrow> string" where
  "number_text dtext n = (case n of WideIntObj w \<Rightarrow> wide_text w | DoubleObj d \<Rightarrow> dtext d)"

section \<open>Facts about 64-bit arithmetic\<close>






lemma wide_div_Inr:
  "b \<noteq> 0 \<Longrightarrow> \<not> (sint a = - (2 ^ 63) \<and> sint b = - 1) \<Longrightarrow> wide_div a b = Inr (wide_quot a b)"
  by (simp add: wide_div_def)

lemma wide_div_fault_iff:
  "(\<exists>f. wide_div a b = Inl f) \<longleftrightarrow> b = 0 \<or> (sint a = - (2 ^ 63) \<and> sint b = - 1)"
  by (auto simp: wide_div_def)


section \<open>The bounds calculator: properties\<close>







section \<open>Facts about indices\<close>

lemma sint_wide_pred:
  "0 < sint (n :: Tcl_WideInt) \<Longrightarrow> sint (n - 1) = sint n - 1"
  using sint_lt [of n] sint_ge [of n]
  by (simp add: sint_word_ariths signed_take_bit_int_eq_self)

lemma sint_word_of_nat:
  "i < 2 ^ 63 \<Longrightarrow> sint (word_of_nat i :: Tcl_WideInt) = int i"
  by (simp add: signed_of_nat signed_take_bit_int_eq_self)

lemma sint_narrow:
  assumes "0 \<le> sint (w :: Tcl_WideInt)" "sint w < 2 ^ 31"
  shows "sint (ucast w :: 32 word) = sint w"
proof -
  have "uint w = take_bit 64 (sint w)" by (simp add: uint_sint)
  also have "\<dots> = sint w" using assms by (simp add: take_bit_int_eq_self)
  finally have u: "uint w = sint w" .
  have "sint (ucast w :: 32 word) = signed_take_bit 31 (uint w)"
    by (simp add: signed_ucast_eq)
  also have "\<dots> = sint w"
    using assms u by (simp add: signed_take_bit_int_eq_self)
  finally show ?thesis .
qed

lemma sdiv_mult_self: "(y::int) \<noteq> 0 \<Longrightarrow> (x * y) sdiv y = x"
proof -
  assume y: "y \<noteq> 0"
  have "(x * y) sdiv y = sgn x * (sgn y * sgn y) * (\<bar>x\<bar> * \<bar>y\<bar> div \<bar>y\<bar>)"
    by (simp add: signed_divide_int_def sgn_mult abs_mult mult.assoc)
  also have "sgn y * sgn y = 1" using y by (simp add: sgn_if)
  also have "\<bar>x\<bar> * \<bar>y\<bar> div \<bar>y\<bar> = \<bar>x\<bar>" using y by simp
  finally show ?thesis by (simp add: mult_sgn_abs)
qed

lemma wide_quot_mult_self:
  assumes "st \<noteq> 0" and "- (2 ^ 63) \<le> sint n * sint st" and "sint n * sint st < 2 ^ 63"
  shows "wide_quot (n * st) st = (n :: Tcl_WideInt)"
proof -
  have "sint (n * st) = sint n * sint st"
    using assms by (simp add: sint_word_ariths signed_take_bit_int_eq_self)
  moreover have "sint st \<noteq> 0" using assms(1) by (simp add: signed_eq_0_iff)
  ultimately show ?thesis by (simp add: wide_quot_def sdiv_mult_self)
qed

text \<open>A product that fits in 64 bits divides by its factor without a fault: were the
  product \<open>-2\<^sup>6\<^sup>3\<close> and the factor \<open>-1\<close>, the other factor would be \<open>2\<^sup>6\<^sup>3\<close>.\<close>

lemma wide_div_mult_self:
  assumes "st \<noteq> 0" and "- (2 ^ 63) \<le> sint n * sint st" and "sint n * sint st < 2 ^ 63"
  shows "wide_div (n * st) st = Inr (n :: Tcl_WideInt)"
proof -
  have m: "sint (n * st) = sint n * sint st"
    using assms by (simp add: sint_word_ariths signed_take_bit_int_eq_self)
  have "\<not> (sint (n * st) = - (2 ^ 63) \<and> sint st = - 1)"
  proof
    assume "sint (n * st) = - (2 ^ 63) \<and> sint st = - 1"
    with m have "sint n = 2 ^ 63" by simp
    with sint_lt [of n] show False by simp
  qed
  with assms(1) have "wide_div (n * st) st = Inr (wide_quot (n * st) st)"
    by (rule wide_div_Inr)
  with wide_quot_mult_self [OF assms] show ?thesis by simp
qed

section \<open>The element synthesizer: properties\<close>

lemma Index_error_iff:
  "concreteRep obj = Some rep \<Longrightarrow>
   (TclArithSeriesObjIndex ops obj i = Inr TCL_ERROR) = (sint i < 0 \<or> sint (rep_len rep) \<le> sint i)"
  by (simp add: TclArithSeriesObjIndex_def)

lemma Index_in_range:
  assumes "concreteRep obj = Some rep" "0 \<le> sint w" "sint w < sint (rep_len rep)"
  shows "TclArithSeriesObjIndex ops obj w =
     Inr (TCL_OK (if isDouble rep then DoubleObj (ArithSeriesIndexM ops rep w)
                  else WideIntObj (to_wide ops (ArithSeriesIndexM ops rep w))))"
  using assms by (simp add: TclArithSeriesObjIndex_def)

lemma Index_int:
  "concreteRep obj = Some (ArithSeries r) \<Longrightarrow> 0 \<le> sint i \<Longrightarrow> sint i < sint (len r) \<Longrightarrow>
   TclArithSeriesObjIndex ops obj i
     = Inr (TCL_OK (WideIntObj (to_wide ops (of_wide ops (start r + i * step r)))))"
  by (simp add: TclArithSeriesObjIndex_def ArithSeriesIndexM_def)

lemma Index_dbl:
  "concreteRep obj = Some (ArithSeriesDbl r) \<Longrightarrow> 0 \<le> sint i \<Longrightarrow> sint i < sint (len r) \<Longrightarrow>
   TclArithSeriesObjIndex ops obj i
     = Inr (TCL_OK (DoubleObj (d_add ops (start r) (d_mul ops (of_wide ops i) (step r)))))"
  by (simp add: TclArithSeriesObjIndex_def ArithSeriesIndexM_def)

lemma Index_int_survives:
  "concreteRep obj = Some (ArithSeries r) \<Longrightarrow> 0 \<le> sint i \<Longrightarrow> sint i < sint (len r) \<Longrightarrow>
   survives ops (start r + i * step r) \<Longrightarrow>
   TclArithSeriesObjIndex ops obj i = Inr (TCL_OK (WideIntObj (start r + i * step r)))"
  by (simp add: Index_int survives_def)

lemma Index_same_fields:
  assumes "concreteRep obj = Some (ArithSeries r)" "concreteRep obj' = Some (ArithSeries r')"
    "start r' = start r" "step r' = step r" "len r' = len r"
  shows "TclArithSeriesObjIndex ops obj' i = TclArithSeriesObjIndex ops obj i"
  using assms by (simp add: TclArithSeriesObjIndex_def ArithSeriesIndexM_def)

lemma element_seq_same_fields:
  assumes "concreteRep obj = Some (ArithSeries r)" "concreteRep obj' = Some (ArithSeries r')"
    "start r' = start r" "step r' = step r" "len r' = len r"
  shows "element_seq ops obj' = element_seq ops obj \<and> list_length obj' = list_length obj"
  using assms Index_same_fields [OF assms]
  by (simp add: element_seq_def list_length_def)

text \<open>
  C5 says that an index in range yields \<open>start + i * step\<close> in integer arithmetic for
  an integer progression, with no promotion to floating point.  The source does
  promote: \<^verbatim>\<open>ArithSeriesIndexM\<close> yields a \<^verbatim>\<open>double\<close> for both kinds of series, so
  the integer sum passes through \<^verbatim>\<open>double\<close>.  The progression that
  \<^verbatim>\<open>TclNewArithSeriesObj\<close> builds from start \<open>2\<^sup>5\<^sup>3 + 1\<close> and end \<open>2\<^sup>5\<^sup>3 + 1\<close> has the
  one element \<open>2\<^sup>5\<^sup>3 + 1 = 9007199254740993\<close>; index 0 returns
  \<open>9007199254740992\<close>.
\<close>

theorem index_of_large_integer:
  "TclNewArithSeriesObj binary64 \<lparr>TCL_MAJOR_VERSION = 8, ListSizeT_MAX = 2147483647\<rparr> False
      (Some (WideIntObj 9007199254740993)) (Some (WideIntObj 9007199254740993)) None None
     = Inr (TCL_OK \<lparr>refCount = 0, bytes = None,
              concreteRep = Some (ArithSeries \<lparr>len = 1, elements = None,
                start = 9007199254740993, endv = 9007199254740993, step = - 1\<rparr>)\<rparr>)
   \<and> TclArithSeriesObjIndex binary64
        \<lparr>refCount = 0, bytes = None,
         concreteRep = Some (ArithSeries \<lparr>len = 1, elements = None,
           start = 9007199254740993, endv = 9007199254740993, step = - 1\<rparr>)\<rparr> 0
     = Inr (TCL_OK (WideIntObj 9007199254740992))"
  by code_simp

section \<open>Duplication: properties\<close>

lemma DupArithSeriesRep_rep:
  "concreteRep srcPtr = Some rep \<Longrightarrow>
   DupArithSeriesRep srcPtr copyPtr = Inr (copyPtr\<lparr>concreteRep := Some rep\<rparr>)"
  by (simp add: DupArithSeriesRep_def)

text \<open>
  C2 says that the duplicate's cache is empty whatever the source's cache holds.
  \<open>DupArithSeriesRep\<close> copies the whole struct: after
  \<open>TclArithSeriesGetElements\<close> has filled the cache of the progression 1, 3, 5, the
  duplicate holds the same cache \<open>[1, 3, 5]\<close>, not \<^verbatim>\<open>NULL\<close>.
\<close>

theorem DupArithSeriesRep_keeps_cache:
  "TclArithSeriesGetElements binary64
     \<lparr>refCount = 1, bytes = None,
      concreteRep = Some (ArithSeries
        \<lparr>len = 3, elements = None, start = 1, endv = 5, step = 2\<rparr>)\<rparr>
   = (TCL_OK (3, Some [WideIntObj 1, WideIntObj 3, WideIntObj 5]),
      \<lparr>refCount = 1, bytes = None,
       concreteRep = Some (ArithSeries
         \<lparr>len = 3, elements = Some [WideIntObj 1, WideIntObj 3, WideIntObj 5],
          start = 1, endv = 5, step = 2\<rparr>)\<rparr>)
   \<and> DupArithSeriesRep
       \<lparr>refCount = 1, bytes = None,
        concreteRep = Some (ArithSeries
          \<lparr>len = 3, elements = Some [WideIntObj 1, WideIntObj 3, WideIntObj 5],
           start = 1, endv = 5, step = 2\<rparr>)\<rparr>
       (TclNewObj :: rat Tcl_Obj)
     = Inr \<lparr>refCount = 0, bytes = Some [],
            concreteRep = Some (ArithSeries
              \<lparr>len = 3, elements = Some [WideIntObj 1, WideIntObj 3, WideIntObj 5],
               start = 1, endv = 5, step = 2\<rparr>)\<rparr>"
  by code_simp

section \<open>Construction: properties\<close>

text \<open>
  C3, as the spec states it: a zero step makes the construction fail with an error.
  With start 1, end 10 and step 0, \<open>TclNewArithSeriesObj\<close> completes with
  \<^verbatim>\<open>TCL_OK\<close> and stores the empty object.
\<close>

theorem zero_step_counterexample:
  "TclNewArithSeriesObj binary64 \<lparr>TCL_MAJOR_VERSION = 8, ListSizeT_MAX = 2147483647\<rparr> False
     (Some (WideIntObj 1)) (Some (WideIntObj 10)) (Some (WideIntObj 0)) None
   = Inr (TCL_OK TclNewObj)"
  by code_simp

text \<open>
  C3, amended: when the supplied step is zero (the source tests the step as a
  double, \<^verbatim>\<open>dstep == 0\<close>), the construction completes with \<^verbatim>\<open>TCL_OK\<close> and yields the
  canonical empty container, whatever the other arguments are; no progression is
  produced and no error is raised.
\<close>

theorem zero_step_gives_empty:
  assumes "if useDoubles then d_is_zero ops (assignNumber_dbl ops s)
           else d_is_zero ops (of_wide ops (assignNumber_int ops s))"
  shows "TclNewArithSeriesObj ops cfg useDoubles startObj endObj (Some s) lenObj
           = Inr (TCL_OK TclNewObj)
     \<and> concreteRep (TclNewObj :: 'd Tcl_Obj) = None
     \<and> list_length (TclNewObj :: 'd Tcl_Obj) = 0"
  using assms
  by (auto simp: TclNewArithSeriesObj_def ArithSeriesArgs_def ArithSeriesArgsInt_def
        ArithSeriesArgsDbl_def TclNewObj_def list_length_def split: if_splits)

text \<open>C3, amended, at start 1, end 10, step 0 (integers).\<close>

theorem zero_step_gives_empty_witness:
  "d_is_zero binary64 (of_wide binary64 (assignNumber_int binary64 (WideIntObj 0)))
   \<and> TclNewArithSeriesObj binary64 \<lparr>TCL_MAJOR_VERSION = 8, ListSizeT_MAX = 2147483647\<rparr> False
        (Some (WideIntObj 1)) (Some (WideIntObj 10)) (Some (WideIntObj 0)) None
      = Inr (TCL_OK TclNewObj)"
proof -
  have h: "d_is_zero binary64 (of_wide binary64 (assignNumber_int binary64 (WideIntObj 0)))"
    by code_simp
  then have "if False then d_is_zero binary64 (assignNumber_dbl binary64 (WideIntObj 0))
           else d_is_zero binary64 (of_wide binary64 (assignNumber_int binary64 (WideIntObj 0)))"
    by simp
  from zero_step_gives_empty [OF this] h show ?thesis by blast
qed

section \<open>Reverse and slice: what the calls return\<close>

text \<open>The result of \<open>TclArithSeriesObjReverse\<close> on a non-empty progression, in
  full, for either kind of series.\<close>

lemma Reverse_int:
  assumes rep: "concreteRep obj = Some (ArithSeries r)" and pos: "0 < sint (len r)"
  shows "TclArithSeriesObjReverse ops cfg obj =
    (let start' = to_wide ops (of_wide ops (start r + (len r - 1) * step r));
         end' = to_wide ops (of_wide ops (start r));
         step' = - step r
     in if 1 < refCount obj then
          Inr (if d_is_zero ops (of_wide ops step') then NewObj TclNewObj
               else if TCL_MAJOR_VERSION cfg < 9 \<and> sint (ListSizeT_MAX cfg) < sint (len r) then NullPtr
               else NewObj (Tcl_NewAbstractListObj (ArithSeries
                      \<lparr>len = len r, elements = None, start = start', endv = end', step = step'\<rparr>)),
               obj)
        else Inr (SameObj,
               obj\<lparr>bytes := None,
                   concreteRep := Some (ArithSeries
                     (r\<lparr>start := start', endv := end', step := step', elements := None\<rparr>))\<rparr>))"
proof -
  have p: "sint (len r - 1) = sint (len r) - 1" using pos by (rule sint_wide_pred)
  have i1: "TclArithSeriesObjIndex ops obj (len r - 1)
     = Inr (TCL_OK (WideIntObj (to_wide ops (of_wide ops (start r + (len r - 1) * step r)))))"
    using rep pos p by (intro Index_int) auto
  have i0: "TclArithSeriesObjIndex ops obj 0
     = Inr (TCL_OK (WideIntObj (to_wide ops (of_wide ops (start r)))))"
    using Index_int [OF rep, of 0 ops] pos by simp
  have st: "TclArithSeriesObjStep obj = Inr (WideIntObj (step r))"
    using rep by (simp add: TclArithSeriesObjStep_def)
  show ?thesis
    using pos
    by (simp add: TclArithSeriesObjReverse_def rep i1 i0 st Let_def Tcl_GetWideIntFromObj_def
        Tcl_IsShared_def TclNewArithSeriesObj_def ArithSeriesArgs_def ArithSeriesArgsInt_def
        read_lenObj_def assignNumber_int_def TclNewArithSeriesInt_def)
qed

lemma Reverse_dbl:
  assumes rep: "concreteRep obj = Some (ArithSeriesDbl r)" and pos: "0 < sint (len r)"
  shows "TclArithSeriesObjReverse ops cfg obj =
    (let dstart = d_add ops (start r) (d_mul ops (of_wide ops (len r - 1)) (step r));
         dend = d_add ops (start r) (d_mul ops (of_wide ops 0) (step r));
         dstep = d_neg ops (step r)
     in if 1 < refCount obj then
          Inr (if d_is_zero ops dstep then NewObj TclNewObj
               else if TCL_MAJOR_VERSION cfg < 9 \<and> sint (ListSizeT_MAX cfg) < sint (len r) then NullPtr
               else NewObj (Tcl_NewAbstractListObj (ArithSeriesDbl
                      \<lparr>len = len r, elements = None, start = dstart, endv = dend, step = dstep\<rparr>)),
               obj)
        else Inr (SameObj,
               obj\<lparr>bytes := None,
                   concreteRep := Some (ArithSeriesDbl
                     (r\<lparr>start := dstart, endv := dend, step := dstep, elements := None\<rparr>))\<rparr>))"
proof -
  have p: "sint (len r - 1) = sint (len r) - 1" using pos by (rule sint_wide_pred)
  have i1: "TclArithSeriesObjIndex ops obj (len r - 1)
     = Inr (TCL_OK (DoubleObj (d_add ops (start r) (d_mul ops (of_wide ops (len r - 1)) (step r)))))"
    using rep pos p by (intro Index_dbl) auto
  have i0: "TclArithSeriesObjIndex ops obj 0
     = Inr (TCL_OK (DoubleObj (d_add ops (start r) (d_mul ops (of_wide ops 0) (step r)))))"
    using Index_dbl [OF rep, of 0 ops] pos by simp
  have st: "TclArithSeriesObjStep obj = Inr (DoubleObj (step r))"
    using rep by (simp add: TclArithSeriesObjStep_def)
  show ?thesis
    using pos
    by (simp add: TclArithSeriesObjReverse_def rep i1 i0 st Let_def Tcl_GetDoubleFromObj_def
        Tcl_IsShared_def TclNewArithSeriesObj_def ArithSeriesArgs_def ArithSeriesArgsDbl_def
        read_lenObj_def Tcl_GetWideIntFromObj_def assignNumber_dbl_def TclNewArithSeriesDbl_def)
qed

lemma Reverse_int_rep:
  assumes rep: "concreteRep obj = Some (ArithSeries r)" and pos: "0 < sint (len r)"
    and sh: "1 < refCount obj \<Longrightarrow> \<not> d_is_zero ops (of_wide ops (- step r)) \<and>
        \<not> (TCL_MAJOR_VERSION cfg < 9 \<and> sint (ListSizeT_MAX cfg) < sint (len r))"
  shows "\<exists>res o1 r1. TclArithSeriesObjReverse ops cfg obj = Inr res \<and> returned_obj res = Some o1
      \<and> concreteRep o1 = Some (ArithSeries r1)
      \<and> start r1 = to_wide ops (of_wide ops (start r + (len r - 1) * step r))
      \<and> endv r1 = to_wide ops (of_wide ops (start r))
      \<and> step r1 = - step r \<and> len r1 = len r \<and> elements r1 = None"
proof (cases "1 < refCount obj")
  case True
  with sh show ?thesis
    by (simp add: Reverse_int [OF rep pos] Let_def Tcl_NewAbstractListObj_def)
next
  case False
  then show ?thesis
    by (simp add: Reverse_int [OF rep pos] Let_def)
qed

text \<open>The result of \<open>TclArithSeriesObjRange\<close> for indices in range, in full.\<close>

lemma Range_int:
  assumes rep: "concreteRep obj = Some (ArithSeries r)"
    and from': "from' = (if sint fromIdx < 0 then 0 else fromIdx)"
    and le: "sint from' \<le> sint toIdx" and lt: "sint toIdx < sint (len r)"
    and s: "start' = to_wide ops (of_wide ops (start r + from' * step r))"
    and e: "end' = to_wide ops (of_wide ops (start r + toIdx * step r))"
    and l: "wide_div (end' - start' + step r) (step r) = Inr len'"
  shows "TclArithSeriesObjRange ops cfg obj fromIdx toIdx =
    (if 1 < refCount obj then
          (if d_is_zero ops (of_wide ops (step r)) then Inr (NewObj TclNewObj, obj)
           else if TCL_MAJOR_VERSION cfg < 9 \<and> sint (ListSizeT_MAX cfg) < sint len'
             then Inr (NullPtr, obj)
           else (case TclNewArithSeriesInt start' end' (step r) len' of
                   Inl f \<Rightarrow> Inl f
                 | Inr new \<Rightarrow> Inr (NewObj new, obj)))
        else Inr (SameObj,
               obj\<lparr>bytes := None,
                   concreteRep := Some (ArithSeries
                     (r\<lparr>start := start', endv := end', step := step r, len := len',
                        elements := None\<rparr>))\<rparr>))"
proof -
  have f0: "0 \<le> sint from'" using from' by auto
  have i1: "TclArithSeriesObjIndex ops obj from' = Inr (TCL_OK (WideIntObj start'))"
    unfolding s using rep f0 le lt by (intro Index_int) auto
  have i2: "TclArithSeriesObjIndex ops obj toIdx = Inr (TCL_OK (WideIntObj end'))"
    unfolding e using rep f0 le lt by (intro Index_int) auto
  have st: "TclArithSeriesObjStep obj = Inr (WideIntObj (step r))"
    using rep by (simp add: TclArithSeriesObjStep_def)
  have nle: "\<not> sint toIdx < sint from'" using le by simp
  show ?thesis
    unfolding TclArithSeriesObjRange_def from' [symmetric] Let_def
    using nle
    by (simp add: rep i1 i2 st Tcl_GetWideIntFromObj_def l
        Tcl_IsShared_def TclNewArithSeriesObj_def ArithSeriesArgs_def ArithSeriesArgsInt_def
        read_lenObj_def assignNumber_int_def Let_def split: sum.splits)
qed












section \<open>Ownership: a shared progression is copied\<close>



section \<open>Slicing to nothing\<close>

text \<open>
  C8: \<open>TclArithSeriesObjRange\<close> first raises a negative \<open>fromIdx\<close> to 0; when the
  result exceeds \<open>toIdx\<close>, the call returns a new canonical empty container, of
  length 0, and leaves the argument unchanged.
\<close>

theorem range_from_after_to:
  assumes "sint toIdx < sint (if sint fromIdx < 0 then 0 else fromIdx)"
  shows "TclArithSeriesObjRange ops cfg obj fromIdx toIdx = Inr (NewObj TclNewObj, obj)
    \<and> list_length (TclNewObj :: 'd Tcl_Obj) = 0"
  using assms by (simp add: TclArithSeriesObjRange_def Let_def list_length_def TclNewObj_def)

text \<open>C8 at indices \<open>-3\<close> and \<open>-1\<close>: before the clamp \<open>-3 \<le> -1\<close>, after it
  \<open>0 > -1\<close>.\<close>

theorem range_from_after_to_witness:
  "sint (- 1 :: Tcl_WideInt) < sint (if sint (- 3 :: Tcl_WideInt) < 0 then 0 else - 3 :: Tcl_WideInt)
   \<and> TclArithSeriesObjRange binary64 \<lparr>TCL_MAJOR_VERSION = 8, ListSizeT_MAX = 2147483647\<rparr>
        \<lparr>refCount = 1, bytes = None, concreteRep = Some (ArithSeries
            \<lparr>len = 5, elements = None, start = 1, endv = 10, step = 2\<rparr>)\<rparr> (- 3) (- 1)
      = Inr (NewObj TclNewObj,
          \<lparr>refCount = 1, bytes = None, concreteRep = Some (ArithSeries
            \<lparr>len = 5, elements = None, start = 1, endv = 10, step = 2\<rparr>)\<rparr>)"
proof -
  have h: "sint (- 1 :: Tcl_WideInt) < sint (if sint (- 3 :: Tcl_WideInt) < 0 then 0 else - 3 :: Tcl_WideInt)"
    by simp
  from range_from_after_to [OF h] h show ?thesis by blast
qed

section \<open>Reversing twice\<close>

text \<open>
  C6, as the spec states it, for every progression: reversing twice gives back the
  same elements.  The progression of doubles with start \<^verbatim>\<open>0.1\<close>, step \<^verbatim>\<open>0.2\<close> and
  3 elements (\<^verbatim>\<open>0.1\<close>, \<^verbatim>\<open>0.30000000000000004\<close>, \<^verbatim>\<open>0.5\<close>) refutes it.  Each reverse
  recomputes the start as the last element, in floating point: the first reverse
  starts at \<^verbatim>\<open>0.5\<close> with step \<^verbatim>\<open>-0.2\<close>, the second starts at
  \<^verbatim>\<open>0.5 + 2 * -0.2 = 0.09999999999999998\<close>, which is not \<^verbatim>\<open>0.1\<close>.
\<close>

theorem reverse_twice_counterexample:
  "TclNewArithSeriesObj binary64 \<lparr>TCL_MAJOR_VERSION = 8, ListSizeT_MAX = 2147483647\<rparr> True
      (Some (DoubleObj dbl_0_1)) None (Some (DoubleObj dbl_0_2)) (Some (WideIntObj 3))
     = Inr (TCL_OK \<lparr>refCount = 0, bytes = None, concreteRep = Some (ArithSeriesDbl
         \<lparr>len = 3, elements = None, start = dbl_0_1, endv = 1 / 2, step = dbl_0_2\<rparr>)\<rparr>)
   \<and> TclArithSeriesObjReverse binary64 \<lparr>TCL_MAJOR_VERSION = 8, ListSizeT_MAX = 2147483647\<rparr>
       \<lparr>refCount = 0, bytes = None, concreteRep = Some (ArithSeriesDbl
         \<lparr>len = 3, elements = None, start = dbl_0_1, endv = 1 / 2, step = dbl_0_2\<rparr>)\<rparr>
     = Inr (SameObj, \<lparr>refCount = 0, bytes = None, concreteRep = Some (ArithSeriesDbl
         \<lparr>len = 3, elements = None, start = 1 / 2, endv = dbl_0_1, step = - dbl_0_2\<rparr>)\<rparr>)
   \<and> TclArithSeriesObjReverse binary64 \<lparr>TCL_MAJOR_VERSION = 8, ListSizeT_MAX = 2147483647\<rparr>
       \<lparr>refCount = 0, bytes = None, concreteRep = Some (ArithSeriesDbl
         \<lparr>len = 3, elements = None, start = 1 / 2, endv = dbl_0_1, step = - dbl_0_2\<rparr>)\<rparr>
     = Inr (SameObj, \<lparr>refCount = 0, bytes = None, concreteRep = Some (ArithSeriesDbl
         \<lparr>len = 3, elements = None, start = 900719925474099 / 9007199254740992, endv = 1 / 2,
          step = dbl_0_2\<rparr>)\<rparr>)
   \<and> element_seq binary64 \<lparr>refCount = 0, bytes = None, concreteRep = Some (ArithSeriesDbl
         \<lparr>len = 3, elements = None, start = dbl_0_1, endv = 1 / 2, step = dbl_0_2\<rparr>)\<rparr>
     = [Inr (TCL_OK (DoubleObj dbl_0_1)),
        Inr (TCL_OK (DoubleObj (1351079888211149 / 4503599627370496))),
        Inr (TCL_OK (DoubleObj (1 / 2)))]
   \<and> element_seq binary64 \<lparr>refCount = 0, bytes = None, concreteRep = Some (ArithSeriesDbl
         \<lparr>len = 3, elements = None, start = 900719925474099 / 9007199254740992, endv = 1 / 2,
          step = dbl_0_2\<rparr>)\<rparr>
     = [Inr (TCL_OK (DoubleObj (900719925474099 / 9007199254740992))),
        Inr (TCL_OK (DoubleObj (5404319552844595 / 18014398509481984))),
        Inr (TCL_OK (DoubleObj (1 / 2)))]
   \<and> dbl_0_1 \<noteq> 900719925474099 / 9007199254740992"
  by code_simp

lemma reverse_twice_int:
  assumes rep: "concreteRep obj = Some (ArithSeries r)" and pos: "0 < sint (len r)"
    and s0: "survives ops (start r)"
    and sN: "survives ops (start r + (len r - 1) * step r)"
    and nz: "\<not> d_is_zero ops (of_wide ops (step r))" "\<not> d_is_zero ops (of_wide ops (- step r))"
    and mx: "\<not> (TCL_MAJOR_VERSION cfg < 9 \<and> sint (ListSizeT_MAX cfg) < sint (len r))"
  shows "\<exists>res1 o1. TclArithSeriesObjReverse ops cfg obj = Inr res1 \<and> returned_obj res1 = Some o1
      \<and> list_length o1 = list_length obj
      \<and> (\<forall>n. \<exists>res2 o2. TclArithSeriesObjReverse ops cfg (o1\<lparr>refCount := n\<rparr>) = Inr res2
             \<and> returned_obj res2 = Some o2
             \<and> list_length o2 = list_length obj
             \<and> element_seq ops o2 = element_seq ops obj)"
proof -
  from Reverse_int_rep [OF rep pos, of ops cfg] nz mx
  obtain res1 o1 r1 where 1: "TclArithSeriesObjReverse ops cfg obj = Inr res1"
    "returned_obj res1 = Some o1" "concreteRep o1 = Some (ArithSeries r1)"
    "start r1 = to_wide ops (of_wide ops (start r + (len r - 1) * step r))"
    "step r1 = - step r" "len r1 = len r"
    by blast
  have st1: "start r1 = start r + (len r - 1) * step r"
    using 1(4) sN by (simp add: survives_def)
  have len1: "list_length o1 = list_length obj"
    using rep 1 by (simp add: list_length_def)
  have ret: "start r1 + (len r1 - 1) * step r1 = start r"
    by (simp add: st1 1(5,6))
  have "\<exists>res2 o2. TclArithSeriesObjReverse ops cfg (o1\<lparr>refCount := n\<rparr>) = Inr res2
             \<and> returned_obj res2 = Some o2
             \<and> list_length o2 = list_length obj
             \<and> element_seq ops o2 = element_seq ops obj" for n
  proof -
    have rep1: "concreteRep (o1\<lparr>refCount := n\<rparr>) = Some (ArithSeries r1)" using 1(3) by simp
    have pos1: "0 < sint (len r1)" using pos 1(6) by simp
    from Reverse_int_rep [OF rep1 pos1, of ops cfg] nz mx 1(5,6)
    obtain res2 o2 r2 where 2: "TclArithSeriesObjReverse ops cfg (o1\<lparr>refCount := n\<rparr>) = Inr res2"
      "returned_obj res2 = Some o2" "concreteRep o2 = Some (ArithSeries r2)"
      "start r2 = to_wide ops (of_wide ops (start r1 + (len r1 - 1) * step r1))"
      "step r2 = - step r1" "len r2 = len r1"
      by auto
    have "start r2 = start r" using 2(4) ret s0 by (simp add: survives_def)
    moreover have "step r2 = step r" using 2(5) 1(5) by simp
    moreover have "len r2 = len r" using 2(6) 1(6) by simp
    ultimately show ?thesis
      using element_seq_same_fields [OF rep 2(3), of ops] 2(1,2) by auto
  qed
  with 1(1,2) len1 show ?thesis by blast
qed

text \<open>
  C6, amended.  For every non-empty integer progression whose first and last
  elements survive the conversion to double and back, reversing twice yields a
  progression with the count and the element sequence of the original, whether each
  call updates in place or copies (for a copy: the step is not zero as a double and
  the count does not exceed the list maximum).  For every non-empty progression,
  of integers or of doubles, a reverse in place sets the new start to the element
  at \<open>count - 1\<close>, the new end to the element at 0 and the new step to the negated
  step, keeps the count and drops the cache.
\<close>

theorem reverse_twice:
  "(concreteRep obj = Some (ArithSeries r) \<and> 0 < sint (len r)
      \<and> survives ops (start r) \<and> survives ops (start r + (len r - 1) * step r)
      \<and> \<not> d_is_zero ops (of_wide ops (step r)) \<and> \<not> d_is_zero ops (of_wide ops (- step r))
      \<and> \<not> (TCL_MAJOR_VERSION cfg < 9 \<and> sint (ListSizeT_MAX cfg) < sint (len r))
    \<longrightarrow> (\<exists>res1 o1. TclArithSeriesObjReverse ops cfg obj = Inr res1 \<and> returned_obj res1 = Some o1
          \<and> list_length o1 = list_length obj
          \<and> (\<forall>n. \<exists>res2 o2. TclArithSeriesObjReverse ops cfg (o1\<lparr>refCount := n\<rparr>) = Inr res2
                 \<and> returned_obj res2 = Some o2
                 \<and> list_length o2 = list_length obj
                 \<and> element_seq ops o2 = element_seq ops obj)))
   \<and> (concreteRep obj = Some (ArithSeries r) \<and> 0 < sint (len r) \<and> \<not> Tcl_IsShared obj
    \<longrightarrow> (\<exists>s e. TclArithSeriesObjIndex ops obj (len r - 1) = Inr (TCL_OK (WideIntObj s))
          \<and> TclArithSeriesObjIndex ops obj 0 = Inr (TCL_OK (WideIntObj e))
          \<and> TclArithSeriesObjReverse ops cfg obj
              = Inr (SameObj, obj\<lparr>bytes := None, concreteRep := Some (ArithSeries
                   (r\<lparr>start := s, endv := e, step := - step r, elements := None\<rparr>))\<rparr>)))
   \<and> (concreteRep obj = Some (ArithSeriesDbl q) \<and> 0 < sint (len q) \<and> \<not> Tcl_IsShared obj
    \<longrightarrow> (\<exists>s e. TclArithSeriesObjIndex ops obj (len q - 1) = Inr (TCL_OK (DoubleObj s))
          \<and> TclArithSeriesObjIndex ops obj 0 = Inr (TCL_OK (DoubleObj e))
          \<and> TclArithSeriesObjReverse ops cfg obj
              = Inr (SameObj, obj\<lparr>bytes := None, concreteRep := Some (ArithSeriesDbl
                   (q\<lparr>start := s, endv := e, step := d_neg ops (step q), elements := None\<rparr>))\<rparr>)))"
proof (intro conjI)
  show "concreteRep obj = Some (ArithSeries r) \<and> 0 < sint (len r)
      \<and> survives ops (start r) \<and> survives ops (start r + (len r - 1) * step r)
      \<and> \<not> d_is_zero ops (of_wide ops (step r)) \<and> \<not> d_is_zero ops (of_wide ops (- step r))
      \<and> \<not> (TCL_MAJOR_VERSION cfg < 9 \<and> sint (ListSizeT_MAX cfg) < sint (len r))
    \<longrightarrow> (\<exists>res1 o1. TclArithSeriesObjReverse ops cfg obj = Inr res1 \<and> returned_obj res1 = Some o1
          \<and> list_length o1 = list_length obj
          \<and> (\<forall>n. \<exists>res2 o2. TclArithSeriesObjReverse ops cfg (o1\<lparr>refCount := n\<rparr>) = Inr res2
                 \<and> returned_obj res2 = Some o2
                 \<and> list_length o2 = list_length obj
                 \<and> element_seq ops o2 = element_seq ops obj))"
    using reverse_twice_int [of obj r ops cfg] by blast
  show "concreteRep obj = Some (ArithSeries r) \<and> 0 < sint (len r) \<and> \<not> Tcl_IsShared obj
    \<longrightarrow> (\<exists>s e. TclArithSeriesObjIndex ops obj (len r - 1) = Inr (TCL_OK (WideIntObj s))
          \<and> TclArithSeriesObjIndex ops obj 0 = Inr (TCL_OK (WideIntObj e))
          \<and> TclArithSeriesObjReverse ops cfg obj
              = Inr (SameObj, obj\<lparr>bytes := None, concreteRep := Some (ArithSeries
                   (r\<lparr>start := s, endv := e, step := - step r, elements := None\<rparr>))\<rparr>))"
  proof
    assume h: "concreteRep obj = Some (ArithSeries r) \<and> 0 < sint (len r) \<and> \<not> Tcl_IsShared obj"
    then have p: "sint (len r - 1) = sint (len r) - 1" by (simp add: sint_wide_pred)
    have "TclArithSeriesObjIndex ops obj (len r - 1)
        = Inr (TCL_OK (WideIntObj (to_wide ops (of_wide ops (start r + (len r - 1) * step r)))))"
      using h p by (intro Index_int) auto
    moreover have "TclArithSeriesObjIndex ops obj 0
        = Inr (TCL_OK (WideIntObj (to_wide ops (of_wide ops (start r)))))"
      using h Index_int [of obj r 0 ops] by simp
    moreover have "TclArithSeriesObjReverse ops cfg obj
        = Inr (SameObj, obj\<lparr>bytes := None, concreteRep := Some (ArithSeries
             (r\<lparr>start := to_wide ops (of_wide ops (start r + (len r - 1) * step r)),
                endv := to_wide ops (of_wide ops (start r)),
                step := - step r, elements := None\<rparr>))\<rparr>)"
      using h by (simp add: Reverse_int [of obj r] Let_def Tcl_IsShared_def)
    ultimately show "\<exists>s e. TclArithSeriesObjIndex ops obj (len r - 1) = Inr (TCL_OK (WideIntObj s))
          \<and> TclArithSeriesObjIndex ops obj 0 = Inr (TCL_OK (WideIntObj e))
          \<and> TclArithSeriesObjReverse ops cfg obj
              = Inr (SameObj, obj\<lparr>bytes := None, concreteRep := Some (ArithSeries
                   (r\<lparr>start := s, endv := e, step := - step r, elements := None\<rparr>))\<rparr>)"
      by blast
  qed
  show "concreteRep obj = Some (ArithSeriesDbl q) \<and> 0 < sint (len q) \<and> \<not> Tcl_IsShared obj
    \<longrightarrow> (\<exists>s e. TclArithSeriesObjIndex ops obj (len q - 1) = Inr (TCL_OK (DoubleObj s))
          \<and> TclArithSeriesObjIndex ops obj 0 = Inr (TCL_OK (DoubleObj e))
          \<and> TclArithSeriesObjReverse ops cfg obj
              = Inr (SameObj, obj\<lparr>bytes := None, concreteRep := Some (ArithSeriesDbl
                   (q\<lparr>start := s, endv := e, step := d_neg ops (step q), elements := None\<rparr>))\<rparr>))"
  proof
    assume h: "concreteRep obj = Some (ArithSeriesDbl q) \<and> 0 < sint (len q) \<and> \<not> Tcl_IsShared obj"
    then have p: "sint (len q - 1) = sint (len q) - 1" by (simp add: sint_wide_pred)
    have "TclArithSeriesObjIndex ops obj (len q - 1)
        = Inr (TCL_OK (DoubleObj (d_add ops (start q) (d_mul ops (of_wide ops (len q - 1)) (step q)))))"
      using h p by (intro Index_dbl) auto
    moreover have "TclArithSeriesObjIndex ops obj 0
        = Inr (TCL_OK (DoubleObj (d_add ops (start q) (d_mul ops (of_wide ops 0) (step q)))))"
      using h Index_dbl [of obj q 0 ops] by simp
    moreover have "TclArithSeriesObjReverse ops cfg obj
        = Inr (SameObj, obj\<lparr>bytes := None, concreteRep := Some (ArithSeriesDbl
             (q\<lparr>start := d_add ops (start q) (d_mul ops (of_wide ops (len q - 1)) (step q)),
                endv := d_add ops (start q) (d_mul ops (of_wide ops 0) (step q)),
                step := d_neg ops (step q), elements := None\<rparr>))\<rparr>)"
      using h by (simp add: Reverse_dbl [of obj q] Let_def Tcl_IsShared_def)
    ultimately show "\<exists>s e. TclArithSeriesObjIndex ops obj (len q - 1) = Inr (TCL_OK (DoubleObj s))
          \<and> TclArithSeriesObjIndex ops obj 0 = Inr (TCL_OK (DoubleObj e))
          \<and> TclArithSeriesObjReverse ops cfg obj
              = Inr (SameObj, obj\<lparr>bytes := None, concreteRep := Some (ArithSeriesDbl
                   (q\<lparr>start := s, endv := e, step := d_neg ops (step q), elements := None\<rparr>))\<rparr>)"
      by blast
  qed
qed

text \<open>C6, amended, at the progression 1, 3, 5, 7, 9.\<close>

theorem reverse_twice_witness:
  "survives binary64 1 \<and> survives binary64 (1 + (5 - 1) * 2)
   \<and> (\<exists>res1 o1. TclArithSeriesObjReverse binary64
          \<lparr>TCL_MAJOR_VERSION = 8, ListSizeT_MAX = 2147483647\<rparr>
          \<lparr>refCount = 1, bytes = None, concreteRep = Some (ArithSeries
            \<lparr>len = 5, elements = None, start = 1, endv = 10, step = 2\<rparr>)\<rparr> = Inr res1
        \<and> returned_obj res1 = Some o1
        \<and> list_length o1 = 5
        \<and> (\<forall>n. \<exists>res2 o2. TclArithSeriesObjReverse binary64
               \<lparr>TCL_MAJOR_VERSION = 8, ListSizeT_MAX = 2147483647\<rparr> (o1\<lparr>refCount := n\<rparr>) = Inr res2
             \<and> returned_obj res2 = Some o2
             \<and> list_length o2 = 5
             \<and> element_seq binary64 o2
               = element_seq binary64 \<lparr>refCount = 1, bytes = None, concreteRep = Some (ArithSeries
                   \<lparr>len = 5, elements = None, start = 1, endv = 10, step = 2\<rparr>)\<rparr>))"
proof -
  define r :: "(Tcl_WideInt, rat) ArithSeriesFields"
    where "r = \<lparr>len = 5, elements = None, start = 1, endv = 10, step = 2\<rparr>"
  define p :: "rat Tcl_Obj"
    where "p = \<lparr>refCount = 1, bytes = None, concreteRep = Some (ArithSeries r)\<rparr>"
  have s0: "survives binary64 1" by code_simp
  have sN: "survives binary64 (1 + (5 - 1) * 2)" by code_simp
  have nz: "\<not> d_is_zero binary64 (of_wide binary64 2)" "\<not> d_is_zero binary64 (of_wide binary64 (- 2))"
    by code_simp+
  have hyps: "concreteRep p = Some (ArithSeries r) \<and> 0 < sint (len r)
      \<and> survives binary64 (start r) \<and> survives binary64 (start r + (len r - 1) * step r)
      \<and> \<not> d_is_zero binary64 (of_wide binary64 (step r))
      \<and> \<not> d_is_zero binary64 (of_wide binary64 (- step r))
      \<and> \<not> (TCL_MAJOR_VERSION \<lparr>TCL_MAJOR_VERSION = 8, ListSizeT_MAX = 2147483647\<rparr> < 9
        \<and> sint (ListSizeT_MAX \<lparr>TCL_MAJOR_VERSION = 8, ListSizeT_MAX = 2147483647\<rparr>) < sint (len r))"
    using s0 sN nz by (simp add: p_def r_def)
  have ll: "list_length p = 5" by (simp add: p_def r_def list_length_def)
  note t = reverse_twice [of p r binary64 "\<lparr>TCL_MAJOR_VERSION = 8, ListSizeT_MAX = 2147483647\<rparr>",
      THEN conjunct1, THEN mp, OF hyps]
  show ?thesis using t s0 sN unfolding ll unfolding p_def r_def by simp
qed

section \<open>Slicing the whole progression\<close>

text \<open>
  C7 says that, for every non-empty progression, the slice from 0 to \<open>length - 1\<close>
  has the count and the elements of the original.  For a progression of doubles the
  source does not achieve it.  The progression \<^verbatim>\<open>0.0\<close>, \<^verbatim>\<open>0.1\<close>, ..., \<^verbatim>\<open>0.5\<close> (start
  \<^verbatim>\<open>0.0\<close>, step \<^verbatim>\<open>0.1\<close>, 6 elements), when shared, is copied with the count
  \<^verbatim>\<open>(0.5 - 0.0 + 0.1) / 0.1\<close>, which is \<^verbatim>\<open>5.999999999999999\<close> in floating point and
  becomes 5: the copy has lost the last element.  When it is not shared, the
  in-place branch stores the new fields through the \<^verbatim>\<open>Tcl_Obj\<close> pointer, not through
  the representation: the fault \<open>WildWrite\<close>.
\<close>

theorem range_whole_of_doubles:
  "TclNewArithSeriesObj binary64 \<lparr>TCL_MAJOR_VERSION = 8, ListSizeT_MAX = 2147483647\<rparr> True
      (Some (DoubleObj 0)) None (Some (DoubleObj dbl_0_1)) (Some (WideIntObj 6))
     = Inr (TCL_OK \<lparr>refCount = 0, bytes = None, concreteRep = Some (ArithSeriesDbl
         \<lparr>len = 6, elements = None, start = 0, endv = 1 / 2, step = dbl_0_1\<rparr>)\<rparr>)
   \<and> TclArithSeriesObjRange binary64 \<lparr>TCL_MAJOR_VERSION = 8, ListSizeT_MAX = 2147483647\<rparr>
       \<lparr>refCount = 2, bytes = None, concreteRep = Some (ArithSeriesDbl
         \<lparr>len = 6, elements = None, start = 0, endv = 1 / 2, step = dbl_0_1\<rparr>)\<rparr> 0 (6 - 1)
     = Inr (NewObj \<lparr>refCount = 0, bytes = None, concreteRep = Some (ArithSeriesDbl
              \<lparr>len = 5, elements = None, start = 0, endv = 1 / 2, step = dbl_0_1\<rparr>)\<rparr>,
            \<lparr>refCount = 2, bytes = None, concreteRep = Some (ArithSeriesDbl
              \<lparr>len = 6, elements = None, start = 0, endv = 1 / 2, step = dbl_0_1\<rparr>)\<rparr>)
   \<and> list_length \<lparr>refCount = 2, bytes = None, concreteRep = Some (ArithSeriesDbl
         \<lparr>len = 6, elements = None, start = 0, endv = 1 / 2, step = dbl_0_1\<rparr>)\<rparr> = 6
   \<and> list_length \<lparr>refCount = 0, bytes = None, concreteRep = Some (ArithSeriesDbl
         \<lparr>len = 5, elements = None, start = 0, endv = 1 / 2, step = dbl_0_1\<rparr>)\<rparr> = 5
   \<and> TclArithSeriesObjRange binary64 \<lparr>TCL_MAJOR_VERSION = 8, ListSizeT_MAX = 2147483647\<rparr>
       \<lparr>refCount = 1, bytes = None, concreteRep = Some (ArithSeriesDbl
         \<lparr>len = 6, elements = None, start = 0, endv = 1 / 2, step = dbl_0_1\<rparr>)\<rparr> 0 (6 - 1)
     = Inl WildWrite"
  by code_simp

text \<open>
  The progressions of integers.  For every non-empty integer progression with a nonzero step whose
  first and last elements survive the conversion to double and back, and whose
  \<open>count * step\<close> fits in 64 bits, the slice from 0 to \<open>length - 1\<close> has the
  count and the element sequence of the original, in place when the progression is
  not shared and as a copy when it is (for a copy: the step is not zero as a double
  and the count does not exceed the list maximum).
\<close>

lemma range_whole_int:
  assumes rep: "concreteRep obj = Some (ArithSeries r)" and pos: "0 < sint (len r)"
    and s0: "survives ops (start r)"
    and sN: "survives ops (start r + (len r - 1) * step r)"
    and st: "step r \<noteq> 0"
    and ov: "- (2 ^ 63) \<le> sint (len r) * sint (step r)" "sint (len r) * sint (step r) < 2 ^ 63"
    and sh: "1 < refCount obj \<Longrightarrow> \<not> d_is_zero ops (of_wide ops (step r)) \<and>
        \<not> (TCL_MAJOR_VERSION cfg < 9 \<and> sint (ListSizeT_MAX cfg) < sint (len r))"
  shows "\<exists>res obj'. TclArithSeriesObjRange ops cfg obj 0 (len r - 1) = Inr res
      \<and> returned_obj res = Some obj'
      \<and> list_length obj' = list_length obj
      \<and> element_seq ops obj' = element_seq ops obj"
proof -
  have p: "sint (len r - 1) = sint (len r) - 1" using pos by (rule sint_wide_pred)
  have a: "start r = to_wide ops (of_wide ops (start r + 0 * step r))"
    using s0 by (simp add: survives_def)
  have b: "start r + (len r - 1) * step r = to_wide ops (of_wide ops (start r + (len r - 1) * step r))"
    using sN by (simp add: survives_def)
  have c: "start r + (len r - 1) * step r - start r + step r = len r * step r"
    by (simp add: algebra_simps)
  have d: "wide_div (start r + (len r - 1) * step r - start r + step r) (step r) = Inr (len r)"
    unfolding c using st ov by (rule wide_div_mult_self)
  have z: "(0 :: Tcl_WideInt) = (if sint (0 :: Tcl_WideInt) < 0 then 0 else 0)" by simp
  have le: "sint (0 :: Tcl_WideInt) \<le> sint (len r - 1)" using pos p by simp
  have lt: "sint (len r - 1) < sint (len r)" using p by simp
  note R = Range_int [OF rep z le lt a b d, of cfg]
  show ?thesis
  proof (cases "1 < refCount obj")
    case True
    with sh pos show ?thesis
      using element_seq_same_fields [OF rep, of
          "Tcl_NewAbstractListObj (ArithSeries \<lparr>len = len r, elements = None, start = start r,
             endv = start r + (len r - 1) * step r, step = step r\<rparr>)"
          "\<lparr>len = len r, elements = None, start = start r,
             endv = start r + (len r - 1) * step r, step = step r\<rparr>" ops]
      using st by (simp add: R TclNewArithSeriesInt_def Tcl_NewAbstractListObj_def Let_def)
  next
    case False
    then show ?thesis
      using element_seq_same_fields [OF rep, of
          "obj\<lparr>bytes := None,
                   concreteRep := Some (ArithSeries
                     (r\<lparr>start := start r, endv := start r + (len r - 1) * step r, step := step r, len := len r,
                        elements := None\<rparr>))\<rparr>"
          "r\<lparr>start := start r, endv := start r + (len r - 1) * step r, step := step r, len := len r,
                        elements := None\<rparr>" ops]
      using st by (simp add: R)
  qed
qed

text \<open>The whole slice of the progression 1, 3, 5, 7, 9.\<close>

lemma range_whole_int_example:
  "survives binary64 1 \<and> survives binary64 (1 + (5 - 1) * 2)
   \<and> (\<exists>res obj'. TclArithSeriesObjRange binary64
          \<lparr>TCL_MAJOR_VERSION = 8, ListSizeT_MAX = 2147483647\<rparr>
          \<lparr>refCount = 1, bytes = None, concreteRep = Some (ArithSeries
            \<lparr>len = 5, elements = None, start = 1, endv = 10, step = 2\<rparr>)\<rparr> 0 (5 - 1) = Inr res
        \<and> returned_obj res = Some obj'
        \<and> list_length obj' = 5
        \<and> element_seq binary64 obj'
           = element_seq binary64 \<lparr>refCount = 1, bytes = None, concreteRep = Some (ArithSeries
                   \<lparr>len = 5, elements = None, start = 1, endv = 10, step = 2\<rparr>)\<rparr>)"
proof -
  define r :: "(Tcl_WideInt, rat) ArithSeriesFields"
    where "r = \<lparr>len = 5, elements = None, start = 1, endv = 10, step = 2\<rparr>"
  define p :: "rat Tcl_Obj"
    where "p = \<lparr>refCount = 1, bytes = None, concreteRep = Some (ArithSeries r)\<rparr>"
  have s0: "survives binary64 1" by code_simp
  have sN: "survives binary64 (1 + (5 - 1) * 2)" by code_simp
  have "concreteRep p = Some (ArithSeries r)" "0 < sint (len r)"
    "survives binary64 (start r)" "survives binary64 (start r + (len r - 1) * step r)"
    "step r \<noteq> 0"
    "- (2 ^ 63) \<le> sint (len r) * sint (step r)" "sint (len r) * sint (step r) < 2 ^ 63"
    using s0 sN by (simp_all add: p_def r_def)
  from range_whole_int [OF this, of "\<lparr>TCL_MAJOR_VERSION = 8, ListSizeT_MAX = 2147483647\<rparr>"]
  have "\<exists>res obj'. TclArithSeriesObjRange binary64
          \<lparr>TCL_MAJOR_VERSION = 8, ListSizeT_MAX = 2147483647\<rparr> p 0 (len r - 1) = Inr res
        \<and> returned_obj res = Some obj'
        \<and> list_length obj' = list_length p
        \<and> element_seq binary64 obj' = element_seq binary64 p"
    by (simp add: p_def)
  moreover have "list_length p = 5" "len r = 5" by (simp_all add: p_def r_def list_length_def)
  ultimately show ?thesis using s0 sN unfolding p_def r_def by auto
qed

section \<open>The text form\<close>

lemma butlast_concat_spaces:
  "xs \<noteq> [] \<Longrightarrow> butlast (concat (map (\<lambda>x. x @ [CHR '' '']) xs)) = spec_text_form xs"
  by (induction xs rule: spec_text_form.induct) (auto simp: butlast_append)

lemma pass2_acc:
  assumes "\<forall>i < m. TclArithSeriesObjIndex ops obj (word_of_nat i) = Inr (TCL_OK (f i))"
  shows "fold (\<lambda>i p. case TclArithSeriesObjIndex ops obj (word_of_nat i) of
               Inr (TCL_OK eleObj) \<Rightarrow> p @ GetString eleObj @ [CHR '' '']
             | _ \<Rightarrow> p) [0..<m] acc
         = acc @ concat (map (\<lambda>i. GetString (f i) @ [CHR '' '']) [0..<m])"
  using assms by (induction m arbitrary: acc) auto

lemma pass1_acc:
  assumes "\<forall>i < m. TclArithSeriesObjIndex ops obj (word_of_nat i) = Inr (TCL_OK (f i))"
  shows "fold (\<lambda>i length'. case TclArithSeriesObjIndex ops obj (word_of_nat i) of
               Inr (TCL_OK eleObj) \<Rightarrow> length' + (length (GetString eleObj) + 1)
             | _ \<Rightarrow> length') [0..<m] acc
         = acc + length (concat (map (\<lambda>i. GetString (f i) @ [CHR '' '']) [0..<m]))"
  using assms by (induction m arbitrary: acc) auto

lemma text_form_nonempty:
  assumes rep: "concreteRep obj = Some rep"
    and pos: "0 < sint (rep_len rep)" and int_max: "sint (rep_len rep) < 2 ^ 31"
  shows "\<exists>es. element_seq ops obj = map (\<lambda>e. Inr (TCL_OK e)) es
      \<and> int (length es) = list_length obj
      \<and> UpdateStringOfArithSeries ops GetString obj
          = Inr (obj\<lparr>bytes := Some (spec_text_form (map GetString es))\<rparr>)"
proof -
  define n where "n = nat (sint (rep_len rep))"
  define f where "f i = (if isDouble rep then DoubleObj (ArithSeriesIndexM ops rep (word_of_nat i))
                  else WideIntObj (to_wide ops (ArithSeriesIndexM ops rep (word_of_nat i))))" for i
  have npos: "0 < n" using pos by (simp add: n_def)
  have n63: "n < 2 ^ 63" using int_max by (simp add: n_def nat_less_iff) 
  have idx: "\<forall>i < n. TclArithSeriesObjIndex ops obj (word_of_nat i) = Inr (TCL_OK (f i))"
  proof (intro allI impI)
    fix i assume "i < n"
    then have "sint (word_of_nat i :: Tcl_WideInt) = int i"
      using n63 by (intro sint_word_of_nat) simp
    with \<open>i < n\<close> show "TclArithSeriesObjIndex ops obj (word_of_nat i) = Inr (TCL_OK (f i))"
      unfolding f_def by (intro Index_in_range [OF rep]) (auto simp: n_def)
  qed
  define es where "es = map f [0..<n]"
  have ll: "list_length obj = int n" using rep pos by (simp add: list_length_def n_def)
  have seq: "element_seq ops obj = map (\<lambda>e. Inr (TCL_OK e)) es"
    using idx by (simp add: element_seq_def ll es_def)
  have llen: "nat (sint (ucast (rep_len rep) :: 32 word)) = n"
    "\<not> sint (ucast (rep_len rep) :: 32 word) \<le> 0"
    using sint_narrow [of "rep_len rep"] pos int_max by (simp_all add: n_def)
  define buf where "buf = concat (map (\<lambda>i. GetString (f i) @ [CHR '' '']) [0..<n])"
  have p2: "pass2 ops GetString obj n = buf"
    unfolding pass2_def buf_def using pass2_acc [OF idx, of GetString "[]"] by simp
  have p1: "pass1 ops GetString obj n = length buf"
    unfolding pass1_def buf_def using pass1_acc [OF idx, of GetString 0] by simp
  have "buf = concat (map (\<lambda>x. x @ [CHR '' '']) (map GetString es))"
    by (simp add: buf_def es_def comp_def)
  moreover have "map GetString es \<noteq> []" using npos by (simp add: es_def)
  ultimately have "take (length buf - 1) buf = spec_text_form (map GetString es)"
    using butlast_concat_spaces [of "map GetString es"] by (simp add: butlast_conv_take)
  then have "UpdateStringOfArithSeries ops GetString obj
          = Inr (obj\<lparr>bytes := Some (spec_text_form (map GetString es))\<rparr>)"
    using llen by (simp add: UpdateStringOfArithSeries_def TclArithSeriesObjLength_def rep Let_def p1 p2)
  moreover have "int (length es) = list_length obj" by (simp add: ll es_def)
  ultimately show ?thesis using seq by blast
qed

lemma text_form_empty:
  assumes "concreteRep obj = Some rep" "rep_len rep = 0"
  shows "UpdateStringOfArithSeries ops GetString obj = Inr (obj\<lparr>bytes := Some []\<rparr>)"
  using assms by (simp add: UpdateStringOfArithSeries_def TclArithSeriesObjLength_def Let_def)

text \<open>
  For a progression whose count fits the \<^verbatim>\<open>int\<close> the renderer counts with,
  every index below the count yields an element, and
  \<open>UpdateStringOfArithSeries\<close> sets the string representation to the texts of
  these elements in order, separated by single spaces, with no trailing space; for
  a count of 0 it sets the empty string, which is also the string of the canonical
  empty container.  Start 1, end 10, step 2 gives count 5, elements 1, 3, 5, 7, 9
  and the text \<open>1 3 5 7 9\<close>.
\<close>

lemma text_form:
  "(concreteRep obj = Some rep \<and> 0 < sint (rep_len rep) \<and> sint (rep_len rep) < 2 ^ 31
     \<longrightarrow> (\<exists>es. element_seq ops obj = map (\<lambda>e. Inr (TCL_OK e)) es
           \<and> int (length es) = list_length obj
           \<and> UpdateStringOfArithSeries ops GetString obj
               = Inr (obj\<lparr>bytes := Some (spec_text_form (map GetString es))\<rparr>)))
   \<and> (concreteRep obj = Some rep \<and> rep_len rep = 0
     \<longrightarrow> UpdateStringOfArithSeries ops GetString obj = Inr (obj\<lparr>bytes := Some []\<rparr>))
   \<and> bytes (TclNewObj :: 'd Tcl_Obj) = Some []
   \<and> TclNewArithSeriesObj binary64 \<lparr>TCL_MAJOR_VERSION = 8, ListSizeT_MAX = 2147483647\<rparr> False
          (Some (WideIntObj 1)) (Some (WideIntObj 10)) (Some (WideIntObj 2)) None
        = Inr (TCL_OK \<lparr>refCount = 0, bytes = None, concreteRep = Some (ArithSeries
               \<lparr>len = 5, elements = None, start = 1, endv = 10, step = 2\<rparr>)\<rparr>)
   \<and> element_seq binary64 \<lparr>refCount = 0, bytes = None, concreteRep = Some (ArithSeries
               \<lparr>len = 5, elements = None, start = 1, endv = 10, step = 2\<rparr>)\<rparr>
        = map (\<lambda>w. Inr (TCL_OK (WideIntObj w))) [1, 3, 5, 7, 9]
   \<and> UpdateStringOfArithSeries binary64 (number_text dtext)
          \<lparr>refCount = 0, bytes = None, concreteRep = Some (ArithSeries
               \<lparr>len = 5, elements = None, start = 1, endv = 10, step = 2\<rparr>)\<rparr>
        = Inr \<lparr>refCount = 0, bytes = Some ''1 3 5 7 9'', concreteRep = Some (ArithSeries
               \<lparr>len = 5, elements = None, start = 1, endv = 10, step = 2\<rparr>)\<rparr>"
proof (intro conjI)
  show "concreteRep obj = Some rep \<and> 0 < sint (rep_len rep) \<and> sint (rep_len rep) < 2 ^ 31
     \<longrightarrow> (\<exists>es. element_seq ops obj = map (\<lambda>e. Inr (TCL_OK e)) es
           \<and> int (length es) = list_length obj
           \<and> UpdateStringOfArithSeries ops GetString obj
               = Inr (obj\<lparr>bytes := Some (spec_text_form (map GetString es))\<rparr>))"
    using text_form_nonempty [of obj rep ops GetString] by blast
  show "concreteRep obj = Some rep \<and> rep_len rep = 0
     \<longrightarrow> UpdateStringOfArithSeries ops GetString obj = Inr (obj\<lparr>bytes := Some []\<rparr>)"
    using text_form_empty [of obj rep ops GetString] by blast
  show "bytes (TclNewObj :: 'd Tcl_Obj) = Some []"
    by (simp add: TclNewObj_def)
  show "TclNewArithSeriesObj binary64 \<lparr>TCL_MAJOR_VERSION = 8, ListSizeT_MAX = 2147483647\<rparr> False
          (Some (WideIntObj 1)) (Some (WideIntObj 10)) (Some (WideIntObj 2)) None
        = Inr (TCL_OK \<lparr>refCount = 0, bytes = None, concreteRep = Some (ArithSeries
               \<lparr>len = 5, elements = None, start = 1, endv = 10, step = 2\<rparr>)\<rparr>)"
    by code_simp
  show "element_seq binary64 \<lparr>refCount = 0, bytes = None, concreteRep = Some (ArithSeries
               \<lparr>len = 5, elements = None, start = 1, endv = 10, step = 2\<rparr>)\<rparr>
        = map (\<lambda>w. Inr (TCL_OK (WideIntObj w))) [1, 3, 5, 7, 9]"
    by code_simp
  show "UpdateStringOfArithSeries binary64 (number_text dtext)
          \<lparr>refCount = 0, bytes = None, concreteRep = Some (ArithSeries
               \<lparr>len = 5, elements = None, start = 1, endv = 10, step = 2\<rparr>)\<rparr>
        = Inr \<lparr>refCount = 0, bytes = Some ''1 3 5 7 9'', concreteRep = Some (ArithSeries
               \<lparr>len = 5, elements = None, start = 1, endv = 10, step = 2\<rparr>)\<rparr>"
    by code_simp
qed

text \<open>The text form of the progression 1, 3, 5, 7, 9.\<close>

lemma text_form_example:
  "0 < sint (5 :: Tcl_WideInt) \<and> sint (5 :: Tcl_WideInt) < 2 ^ 31
   \<and> (\<exists>es. element_seq binary64 \<lparr>refCount = 0, bytes = None, concreteRep = Some (ArithSeries
               \<lparr>len = 5, elements = None, start = 1, endv = 10, step = 2\<rparr>)\<rparr>
            = map (\<lambda>e. Inr (TCL_OK e)) es
        \<and> int (length es) = 5
        \<and> UpdateStringOfArithSeries binary64 (number_text (\<lambda>d. []))
             \<lparr>refCount = 0, bytes = None, concreteRep = Some (ArithSeries
               \<lparr>len = 5, elements = None, start = 1, endv = 10, step = 2\<rparr>)\<rparr>
           = Inr \<lparr>refCount = 0, bytes = Some (spec_text_form (map (number_text (\<lambda>d. [])) es)),
               concreteRep = Some (ArithSeries
                 \<lparr>len = 5, elements = None, start = 1, endv = 10, step = 2\<rparr>)\<rparr>)"
proof -
  define rep :: "rat ArithSeriesRep"
    where "rep = ArithSeries \<lparr>len = 5, elements = None, start = 1, endv = 10, step = 2\<rparr>"
  define p :: "rat Tcl_Obj" where "p = \<lparr>refCount = 0, bytes = None, concreteRep = Some rep\<rparr>"
  have hyps: "concreteRep p = Some rep \<and> 0 < sint (rep_len rep) \<and> sint (rep_len rep) < 2 ^ 31"
    by (simp add: p_def rep_def)
  have ll: "list_length p = 5" by (simp add: p_def rep_def list_length_def)
  note t = text_form [of p rep binary64 "number_text (\<lambda>d. [])", THEN conjunct1, THEN mp, OF hyps]
  show ?thesis using t unfolding ll unfolding p_def rep_def by simp
qed

text \<open>
  C9 says that, for every progression, the text form is the texts of all its
  elements in order, separated by single spaces.  The renderer keeps the count in
  an \<^verbatim>\<open>int\<close>, \<^verbatim>\<open>llen\<close>, where the count is a \<^verbatim>\<open>Tcl_WideInt\<close>.  The progression 0, 1,
  ..., 2147483647, which \<open>TclNewArithSeriesObj\<close> builds from start 0 and end
  2147483647 in a build of major version 9, has \<open>2\<^sup>3\<^sup>1\<close> elements: \<^verbatim>\<open>llen\<close> is
  negative and the text form is the empty string.  A progression 0, 1, ... of
  \<open>2\<^sup>3\<^sup>2 + 3\<close> elements has the text form \<open>0 1 2\<close>, of three elements.
\<close>

theorem text_form_of_long_progression:
  "TclNewArithSeriesObj binary64 \<lparr>TCL_MAJOR_VERSION = 9, ListSizeT_MAX = 9223372036854775807\<rparr> False
      (Some (WideIntObj 0)) (Some (WideIntObj 2147483647)) None None
     = Inr (TCL_OK \<lparr>refCount = 0, bytes = None, concreteRep = Some (ArithSeries
         \<lparr>len = 2147483648, elements = None, start = 0, endv = 2147483647, step = 1\<rparr>)\<rparr>)
   \<and> list_length \<lparr>refCount = 0, bytes = None, concreteRep = Some (ArithSeries
         \<lparr>len = 2147483648, elements = None, start = 0, endv = 2147483647, step = 1\<rparr> :: rat ArithSeriesRep)\<rparr>
     = 2147483648
   \<and> TclArithSeriesObjIndex binary64 \<lparr>refCount = 0, bytes = None, concreteRep = Some (ArithSeries
         \<lparr>len = 2147483648, elements = None, start = 0, endv = 2147483647, step = 1\<rparr>)\<rparr> 0
     = Inr (TCL_OK (WideIntObj 0))
   \<and> UpdateStringOfArithSeries binary64 (number_text (\<lambda>d. []))
       \<lparr>refCount = 0, bytes = None, concreteRep = Some (ArithSeries
         \<lparr>len = 2147483648, elements = None, start = 0, endv = 2147483647, step = 1\<rparr>)\<rparr>
     = Inr \<lparr>refCount = 0, bytes = Some [], concreteRep = Some (ArithSeries
         \<lparr>len = 2147483648, elements = None, start = 0, endv = 2147483647, step = 1\<rparr>)\<rparr>
   \<and> UpdateStringOfArithSeries binary64 (number_text (\<lambda>d. []))
       \<lparr>refCount = 0, bytes = None, concreteRep = Some (ArithSeries
         \<lparr>len = 4294967299, elements = None, start = 0, endv = 4294967298, step = 1\<rparr>)\<rparr>
     = Inr \<lparr>refCount = 0, bytes = Some ''0 1 2'', concreteRep = Some (ArithSeries
         \<lparr>len = 4294967299, elements = None, start = 0, endv = 4294967298, step = 1\<rparr>)\<rparr>"
  by code_simp

section \<open>Defaults of the construction\<close>

text \<open>
  The values \<open>TclNewArithSeriesObj\<close> passes to the constructors, in integers
  and in doubles.  With start and end given and no step, the step is 1 when
  \<open>start < end\<close> and \<open>-1\<close> otherwise; with start and end given and no count, the
  count is \<open>(end - start + step) / step\<close> (C's division, and its faults), for a
  given or a defaulted step; with no end, the end is \<open>start + step * (count - 1)\<close>;
  with no start, the start is 0.  When the count is positive and within the list
  maximum, these values are the fields of the progression that is returned.
\<close>

lemma construction_defaults:
  "(\<not> d_is_zero ops (of_wide ops (if sint (assignNumber_int ops a) < sint (assignNumber_int ops b) then 1 else - 1)) \<longrightarrow>
      ArithSeriesArgs ops False (Some a) (Some b) None None =
        (let start' = assignNumber_int ops a; end' = assignNumber_int ops b;
             step' = (if sint start' < sint end' then 1 else - 1)
         in case wide_div (end' - start' + step') step' of
              Inl f \<Rightarrow> Inl f
            | Inr l \<Rightarrow> Inr (IntArgs start' end' step' l)))
   \<and> (\<not> d_is_zero ops (of_wide ops (if sint (assignNumber_int ops a) < sint (assignNumber_int ops b) then 1 else - 1)) \<longrightarrow>
      ArithSeriesArgs ops False (Some a) (Some b) None (Some (WideIntObj n)) =
        (let start' = assignNumber_int ops a; end' = assignNumber_int ops b
         in Inr (IntArgs start' end' (if sint start' < sint end' then 1 else - 1) n)))
   \<and> (\<not> d_is_zero ops (of_wide ops (assignNumber_int ops c)) \<longrightarrow>
      ArithSeriesArgs ops False (Some a) (Some b) (Some c) None =
        (let start' = assignNumber_int ops a; end' = assignNumber_int ops b;
             step' = assignNumber_int ops c
         in case wide_div (end' - start' + step') step' of
              Inl f \<Rightarrow> Inl f
            | Inr l \<Rightarrow> Inr (IntArgs start' end' step' l)))
   \<and> (\<not> d_is_zero ops (of_wide ops (assignNumber_int ops c)) \<longrightarrow>
      ArithSeriesArgs ops False startObj None (Some c) (Some (WideIntObj n)) =
        (let start' = (case startObj of None \<Rightarrow> 0 | Some a \<Rightarrow> assignNumber_int ops a);
             step' = assignNumber_int ops c
         in Inr (IntArgs start' (start' + step' * (n - 1)) step' n)))
   \<and> (\<not> d_is_zero ops (of_wide ops (assignNumber_int ops c)) \<longrightarrow>
      ArithSeriesArgs ops False None (Some b) (Some c) (Some (WideIntObj n)) =
        Inr (IntArgs 0 (assignNumber_int ops b) (assignNumber_int ops c) n))
   \<and> (\<not> d_is_zero ops (if d_less ops (assignNumber_dbl ops a) (assignNumber_dbl ops b) then d_one ops else d_neg ops (d_one ops)) \<longrightarrow>
      ArithSeriesArgs ops True (Some a) (Some b) None None =
        (let dstart = assignNumber_dbl ops a; dend = assignNumber_dbl ops b;
             dstep = (if d_less ops dstart dend then d_one ops else d_neg ops (d_one ops))
         in Inr (DblArgs dstart dend dstep
              (to_wide ops (d_div ops (d_add ops (d_sub ops dend dstart) dstep) dstep)))))
   \<and> (\<not> d_is_zero ops (if d_less ops (assignNumber_dbl ops a) (assignNumber_dbl ops b) then d_one ops else d_neg ops (d_one ops)) \<longrightarrow>
      ArithSeriesArgs ops True (Some a) (Some b) None (Some (WideIntObj n)) =
        (let dstart = assignNumber_dbl ops a; dend = assignNumber_dbl ops b
         in Inr (DblArgs dstart dend
              (if d_less ops dstart dend then d_one ops else d_neg ops (d_one ops)) n)))
   \<and> (\<not> d_is_zero ops (assignNumber_dbl ops c) \<longrightarrow>
      ArithSeriesArgs ops True (Some a) (Some b) (Some c) None =
        (let dstart = assignNumber_dbl ops a; dend = assignNumber_dbl ops b;
             dstep = assignNumber_dbl ops c
         in Inr (DblArgs dstart dend dstep
              (to_wide ops (d_div ops (d_add ops (d_sub ops dend dstart) dstep) dstep)))))
   \<and> (\<not> d_is_zero ops (assignNumber_dbl ops c) \<longrightarrow>
      ArithSeriesArgs ops True startObj None (Some c) (Some (WideIntObj n)) =
        (let dstart = (case startObj of None \<Rightarrow> of_wide ops 0 | Some a \<Rightarrow> assignNumber_dbl ops a);
             dstep = assignNumber_dbl ops c
         in Inr (DblArgs dstart (d_add ops dstart (d_mul ops dstep (of_wide ops (n - 1)))) dstep n)))
   \<and> (\<not> d_is_zero ops (assignNumber_dbl ops c) \<longrightarrow>
      ArithSeriesArgs ops True None (Some b) (Some c) (Some (WideIntObj n)) =
        Inr (DblArgs (of_wide ops 0) (assignNumber_dbl ops b) (assignNumber_dbl ops c) n))
   \<and> (\<not> (TCL_MAJOR_VERSION cfg < 9 \<and> sint (ListSizeT_MAX cfg) < sint len') \<and> 0 < sint len' \<and>
        ArithSeriesArgs ops useDoubles startObj endObj stepObj lenObj = Inr (IntArgs start' end' step' len') \<longrightarrow>
      TclNewArithSeriesObj ops cfg useDoubles startObj endObj stepObj lenObj =
        Inr (TCL_OK (Tcl_NewAbstractListObj
          (ArithSeries \<lparr>len = len', elements = None, start = start', endv = end', step = step'\<rparr>))))
   \<and> (\<not> (TCL_MAJOR_VERSION cfg < 9 \<and> sint (ListSizeT_MAX cfg) < sint len') \<and> 0 < sint len' \<and>
        ArithSeriesArgs ops useDoubles startObj endObj stepObj lenObj = Inr (DblArgs dstart dend dstep len') \<longrightarrow>
      TclNewArithSeriesObj ops cfg useDoubles startObj endObj stepObj lenObj =
        Inr (TCL_OK (Tcl_NewAbstractListObj
          (ArithSeriesDbl \<lparr>len = len', elements = None, start = dstart, endv = dend, step = dstep\<rparr>))))"
  by (auto simp: ArithSeriesArgs_def ArithSeriesArgsInt_def ArithSeriesArgsDbl_def read_lenObj_def
      Tcl_GetWideIntFromObj_def Let_def TclNewArithSeriesObj_def TclNewArithSeriesInt_def
      TclNewArithSeriesDbl_def split: option.splits)

text \<open>The defaults at start 1, end 10; at step 2, count 5; and at start 1, end 10,
  step 2.\<close>

lemma construction_defaults_example:
  "\<not> d_is_zero binary64 (of_wide binary64 1)
   \<and> ArithSeriesArgs binary64 False (Some (WideIntObj 1)) (Some (WideIntObj 10)) None None
       = Inr (IntArgs 1 10 1 10)
   \<and> \<not> d_is_zero binary64 (of_wide binary64 2)
   \<and> ArithSeriesArgs binary64 False None None (Some (WideIntObj 2)) (Some (WideIntObj 5))
       = Inr (IntArgs 0 8 2 5)
   \<and> ArithSeriesArgs binary64 False (Some (WideIntObj 1)) (Some (WideIntObj 10))
        (Some (WideIntObj 2)) None
       = Inr (IntArgs 1 10 2 5)"
proof -
  have z1: "\<not> d_is_zero binary64 (of_wide binary64 1)" by code_simp
  have z2: "\<not> d_is_zero binary64 (of_wide binary64 2)" by code_simp
  have w1: "wide_div (10 - 1 + 1) 1 = Inr 10" by (simp add: wide_div_def wide_quot_def)
  have w2: "wide_div (10 - 1 + 2) 2 = Inr 5"
    by (simp add: wide_div_def wide_quot_def signed_divide_int_def)
  note t = construction_defaults [where ops = binary64 and a = "WideIntObj 1" and b = "WideIntObj 10"
      and c = "WideIntObj 2" and n = 5 and startObj = None]
  have "ArithSeriesArgs binary64 False (Some (WideIntObj 1)) (Some (WideIntObj 10)) None None
       = Inr (IntArgs 1 10 1 10)"
    using t z1 w1 by (simp add: assignNumber_int_def Let_def)
  moreover have "ArithSeriesArgs binary64 False None None (Some (WideIntObj 2)) (Some (WideIntObj 5))
       = Inr (IntArgs 0 8 2 5)"
    using t z2 by (simp add: assignNumber_int_def Let_def)
  moreover have "ArithSeriesArgs binary64 False (Some (WideIntObj 1)) (Some (WideIntObj 10))
        (Some (WideIntObj 2)) None
       = Inr (IntArgs 1 10 2 5)"
    using t z2 w2 by (simp add: assignNumber_int_def Let_def)
  ultimately show ?thesis using z1 z2 by blast
qed


text \<open>
  C10 says that with start and end given and no count, the count is computed as
  \<open>(end - start + step) / step\<close>, the step being 1 or \<open>-1\<close> when it is not given.
  With start \<open>2\<^sup>6\<^sup>3 - 1\<close> and end 0 the step is \<open>-1\<close>, \<open>end - start + step\<close> is
  \<open>-2\<^sup>6\<^sup>3\<close>, and the division of the source has no result: no count is computed
  and nothing is returned, in either build, and also when the step \<open>-1\<close> is given.
\<close>

theorem construction_count_overflow:
  "TclNewArithSeriesObj binary64 \<lparr>TCL_MAJOR_VERSION = 9, ListSizeT_MAX = 9223372036854775807\<rparr> False
      (Some (WideIntObj 9223372036854775807)) (Some (WideIntObj 0)) None None
     = Inl DivisionOverflow
   \<and> TclNewArithSeriesObj binary64 \<lparr>TCL_MAJOR_VERSION = 8, ListSizeT_MAX = 2147483647\<rparr> False
      (Some (WideIntObj 9223372036854775807)) (Some (WideIntObj 0)) None None
     = Inl DivisionOverflow
   \<and> ArithSeriesArgs binary64 False
      (Some (WideIntObj 9223372036854775807)) (Some (WideIntObj 0)) (Some (WideIntObj (- 1))) None
     = Inl DivisionOverflow"
  by code_simp

section \<open>The interpretation of doubles: integers that are represented exactly\<close>

text \<open>
  The interpretation \<^term>\<open>binary64\<close> rounds to 53 significant bits.  An integer of
  magnitude at most \<open>2 ^ 53\<close> is therefore represented exactly, so that it survives the
  passage through a double that \<open>ArithSeriesIndexM\<close> imposes on every integer element,
  and the only integer that converts to the double zero is zero itself.
\<close>

lemma bitlen_pos: "0 < k \<Longrightarrow> 0 < bitlen k"
  by (subst bitlen.simps) simp

lemma bitlen_bounds:
  "0 < k \<Longrightarrow> 2 ^ (bitlen k - 1) \<le> k \<and> k < 2 ^ bitlen k"
proof (induction k rule: bitlen.induct)
  case (1 k)
  show ?case
  proof (cases "k = 1")
    case True
    have "bitlen 1 = Suc 0" by (simp add: bitlen.simps [of 1] bitlen.simps [of 0])
    with True show ?thesis by simp
  next
    case False
    with 1 have h: "0 < k div 2" by simp
    with 1 have ih: "2 ^ (bitlen (k div 2) - 1) \<le> k div 2" "k div 2 < 2 ^ bitlen (k div 2)"
      by auto
    have b: "bitlen k = Suc (bitlen (k div 2))" using 1(2) by (subst bitlen.simps) simp
    have p: "0 < bitlen (k div 2)" using h by (rule bitlen_pos)
    then obtain m where m: "bitlen (k div 2) = Suc m" by (cases "bitlen (k div 2)") auto
    have "2 * 2 ^ m \<le> k" using ih(1) m by simp
    moreover have "k < 2 * 2 ^ Suc m" using ih(2) m by simp
    ultimately show ?thesis by (simp add: b m)
  qed
qed

lemma round_half_even_of_int [simp]: "round_half_even (of_int m) = m"
  by (simp add: round_half_even_def)

lemma trunc_to_int_of_int [simp]: "trunc_to_int (of_int m) = m"
  by (simp add: trunc_to_int_def)

lemma round53_exact:
  assumes "\<bar>k\<bar> \<le> 2 ^ 53"
  shows "round53 (of_int k) = of_int k"
proof (cases "k = 0")
  case True
  then show ?thesis by (simp add: round53_def)
next
  case False
  define n where "n = bitlen \<bar>k\<bar>"
  have kpos: "0 < \<bar>k\<bar>" using False by simp
  have bb: "2 ^ (n - 1) \<le> \<bar>k\<bar>" "\<bar>k\<bar> < 2 ^ n" "0 < n"
    using bitlen_bounds [OF kpos] bitlen_pos [OF kpos] by (simp_all add: n_def)
  have il: "ilog2 \<bar>rat_of_int k\<bar> = int n - 1"
  proof -
    have "\<bar>rat_of_int k\<bar> = rat_of_int \<bar>k\<bar>" by simp
    moreover have "1 \<le> rat_of_int \<bar>k\<bar>" using kpos by (simp flip: of_int_abs add: )
    ultimately show ?thesis
      by (simp add: ilog2_def n_def del: of_int_abs)
  qed
  have n54: "n \<le> 54"
  proof (rule ccontr)
    assume "\<not> n \<le> 54"
    then have "54 \<le> n - 1" by simp
    then have "(2::int) ^ 54 \<le> 2 ^ (n - 1)" by (rule power_increasing) simp
    with bb(1) assms show False by simp
  qed
  show ?thesis
  proof (cases "n = 54")
    case True
    with bb(1) assms have "\<bar>k\<bar> = 2 ^ 53" by simp
    then have "k = 2 ^ 53 \<or> k = - (2 ^ 53)" by (auto simp: abs_if split: if_splits)
    moreover have "pow2 (int n - 1 - 52) = 2" using True by (simp add: pow2_def)
    moreover have "rat_of_int (2 ^ 53) / 2 = rat_of_int (2 ^ 52)" by simp
    moreover have "rat_of_int (- (2 ^ 53)) / 2 = rat_of_int (- (2 ^ 52))" by simp
    ultimately show ?thesis
      using False il
      by (auto simp only: round53_def Let_def round_half_even_of_int) simp_all
  next
    case False
    with n54 have le: "n \<le> 53" by simp
    define j where "j = 53 - n"
    have q: "pow2 (int n - 1 - 52) = 1 / 2 ^ j"
    proof (cases "n = 53")
      case True then show ?thesis by (simp add: pow2_def j_def)
    next
      case False
      with le have "int n - 1 - 52 < 0" "nat (- (int n - 1 - 52)) = j" by (simp_all add: j_def)
      then show ?thesis by (simp add: pow2_def)
    qed
    have "rat_of_int k / (1 / 2 ^ j) = rat_of_int (k * 2 ^ j)" by simp
    then show ?thesis
      using \<open>k \<noteq> 0\<close> il q
      by (simp only: round53_def Let_def round_half_even_of_int) simp
  qed
qed

lemma survives_binary64:
  assumes "\<bar>sint v\<bar> \<le> 2 ^ 53"
  shows "survives binary64 v"
proof -
  have "to_wide binary64 (of_wide binary64 v)
      = word_of_int (trunc_to_int (round53 (rat_of_int (sint v))))"
    by (simp add: binary64_def)
  also have "\<dots> = word_of_int (trunc_to_int (rat_of_int (sint v)))"
    by (simp only: round53_exact [OF assms])
  also have "\<dots> = word_of_int (sint v)"
    by (simp only: trunc_to_int_of_int)
  also have "\<dots> = v" by simp
  finally show ?thesis by (simp add: survives_def)
qed

lemma round_choice_nonzero:
  "1 \<le> f \<or> f \<le> - 2 \<Longrightarrow> (if c1 then f else if c2 then f + 1 else if c3 then f else f + 1) \<noteq> (0::int)"
  by auto

lemma round_half_even_nonzero:
  assumes h: "1 \<le> \<bar>y\<bar>"
  shows "round_half_even y \<noteq> 0"
proof (cases "\<lfloor>y\<rfloor> = - 1")
  case True
  then have "- 1 \<le> y" "y < 0" using floor_correct [of y] by simp_all
  with h have "y = - 1" by simp
  with True have "y - of_int \<lfloor>y\<rfloor> = 0" by simp
  then have "round_half_even y = \<lfloor>y\<rfloor>"
    unfolding round_half_even_def Let_def by simp
  with True show ?thesis by simp
next
  case False
  have "1 \<le> \<lfloor>y\<rfloor> \<or> \<lfloor>y\<rfloor> \<le> - 2"
  proof (cases "0 \<le> y")
    case True
    with h have "1 \<le> y" by simp
    then have "1 \<le> \<lfloor>y\<rfloor>" by (simp add: le_floor_iff)
    then show ?thesis ..
  next
    case neg: False
    with h have "y \<le> - 1" by simp
    then have "\<lfloor>y\<rfloor> \<le> - 1" by (simp add: floor_le_iff)
    with False have "\<lfloor>y\<rfloor> \<le> - 2" by linarith
    then show ?thesis ..
  qed
  then show ?thesis
    unfolding round_half_even_def Let_def by (rule round_choice_nonzero)
qed

lemma mult_then_divide: "a * b = c \<Longrightarrow> b \<noteq> 0 \<Longrightarrow> c * (1 / b) = (a::rat)"
  by auto

lemma round53_of_int_eq_0_iff: "round53 (of_int k) = 0 \<longleftrightarrow> k = 0"
proof (cases "k = 0")
  case True
  then show ?thesis by (simp add: round53_def)
next
  case False
  define n where "n = bitlen \<bar>k\<bar>"
  have kpos: "0 < \<bar>k\<bar>" using False by simp
  have bb: "2 ^ (n - 1) \<le> \<bar>k\<bar>" "0 < n"
    using bitlen_bounds [OF kpos] bitlen_pos [OF kpos] by (simp_all add: n_def)
  have il: "ilog2 \<bar>rat_of_int k\<bar> = int n - 1"
  proof -
    have "1 \<le> rat_of_int \<bar>k\<bar>" using kpos by simp
    then show ?thesis by (simp add: ilog2_def n_def flip: of_int_abs)
  qed
  define q where "q = pow2 (int n - 1 - 52)"
  have qpos: "0 < q" by (simp add: q_def pow2_def)
  have big: "2 ^ 52 * q \<le> rat_of_int \<bar>k\<bar>"
  proof (cases "53 \<le> n")
    case True
    then have "q = 2 ^ (n - 53)" by (simp add: q_def pow2_def nat_diff_distrib)
    moreover have "(2::rat) ^ 52 * 2 ^ (n - 53) = 2 ^ (n - 1)"
    proof -
      have "n - 1 = 52 + (n - 53)" using True by simp
      then show ?thesis by (simp only: power_add)
    qed
    moreover have "rat_of_int (2 ^ (n - 1)) \<le> rat_of_int \<bar>k\<bar>"
      using bb(1) by (simp only: of_int_le_iff)
    ultimately show ?thesis by simp
  next
    case False
    then have nq: "int n - 1 - 52 < 0" "nat (- (int n - 1 - 52)) = 53 - n" by simp_all
    then have "q = 1 / 2 ^ (53 - n)" by (simp add: q_def pow2_def)
    moreover have "(2::rat) ^ 52 * (1 / 2 ^ (53 - n)) = 2 ^ (n - 1)"
    proof -
      have "(n - 1) + (53 - n) = 52" using False bb(2) by simp
      then have "(2::rat) ^ ((n - 1) + (53 - n)) = 2 ^ 52" by (rule arg_cong)
      then have "(2::rat) ^ (n - 1) * 2 ^ (53 - n) = 2 ^ 52" by (simp only: power_add)
      then show ?thesis by (rule mult_then_divide) simp
    qed
    ultimately have "2 ^ 52 * q = 2 ^ (n - 1)" by (simp only: )
    moreover have "rat_of_int (2 ^ (n - 1)) \<le> rat_of_int \<bar>k\<bar>"
      using bb(1) by (simp only: of_int_le_iff)
    ultimately show ?thesis by simp
  qed
  have "1 \<le> \<bar>rat_of_int k / q\<bar>"
  proof -
    have "1 \<le> (2::rat) ^ 52" by simp
    then have "1 * q \<le> 2 ^ 52 * q" using qpos by (intro mult_right_mono) auto
    with big have "q \<le> rat_of_int \<bar>k\<bar>" by simp
    then show ?thesis using qpos by (simp add: abs_divide le_divide_eq flip: of_int_abs)
  qed
  then have "round_half_even (rat_of_int k / q) \<noteq> 0" by (rule round_half_even_nonzero)
  then have "round53 (rat_of_int k) \<noteq> 0"
    using False qpos il by (simp add: round53_def Let_def q_def)
  with False show ?thesis by simp
qed

lemma binary64_zero_test: "d_is_zero binary64 (of_wide binary64 w) \<longleftrightarrow> w = 0"
proof -
  have "d_is_zero binary64 (of_wide binary64 w) \<longleftrightarrow> round53 (rat_of_int (sint w)) = 0"
    by (simp add: binary64_def)
  also have "\<dots> \<longleftrightarrow> sint w = 0" by (simp only: round53_of_int_eq_0_iff)
  also have "\<dots> \<longleftrightarrow> w = 0" by (simp add: signed_eq_0_iff)
  finally show ?thesis .
qed

end
